theory Spec2Isabelle
  imports Complex_Main
begin

section \<open>Values of the program\<close>

text \<open>
  The console client \<^verbatim>\<open>issconsole.py\<close> asks a REST service for the position of the
  space station, its next passes over a place and the people in space, and prints what
  it gets. Its three operations are embedded below as functions from an environment
  (the network, the JSON decoder, the local clock and the interpreter's own texts) to
  the lines printed, the requests made and the way the operation ends.

  A Python float is a finite number, an infinity or NaN. Only comparisons and
  truncation are used by the program, and both are exact on floats, so a finite float
  is modelled by the real number it denotes.
\<close>

datatype pyfloat = Finite real | PosInf | NegInf | NaN

text \<open>Python's \<^verbatim>\<open>a < b\<close> on floats: every comparison with NaN is false.\<close>

fun flt_lt :: "pyfloat \<Rightarrow> pyfloat \<Rightarrow> bool" where
  "flt_lt (Finite a) (Finite b) = (a < b)"
| "flt_lt (Finite a) PosInf = True"
| "flt_lt (Finite a) NegInf = False"
| "flt_lt (Finite a) NaN = False"
| "flt_lt PosInf b = False"
| "flt_lt NegInf (Finite b) = True"
| "flt_lt NegInf PosInf = True"
| "flt_lt NegInf NegInf = False"
| "flt_lt NegInf NaN = False"
| "flt_lt NaN b = False"

text \<open>Python's \<^verbatim>\<open>a > b\<close>.\<close>

definition flt_gt :: "pyfloat \<Rightarrow> pyfloat \<Rightarrow> bool" where
  "flt_gt a b = flt_lt b a"

text \<open>
  What \<^verbatim>\<open>json.loads\<close> returns. An object is a Python dict, which keeps the order of
  its keys: an association list (the decoder leaves no key twice). Strings are lists of
  characters, one \<open>char\<close> for one character of the Python string.
\<close>

datatype json =
    JNull
  | JBool bool
  | JInt int
  | JFloat pyfloat
  | JStr string
  | JList "json list"
  | JDict "(string \<times> json) list"

text \<open>
  The exception classes that the modelled statements can raise, and \<open>OtherError\<close> for
  any class that derives from none of the four that the program catches.
\<close>

datatype exn_class =
    RuntimeError | TypeError | NameError | KeyError
  | IndexError | ValueError | OverflowError | OSError
  | OtherError string

datatype exn = Exn exn_class string

fun exn_cls :: "exn \<Rightarrow> exn_class" where
  "exn_cls (Exn c m) = c"

text \<open>\<^verbatim>\<open>str(ce)\<close> of an exception.\<close>

fun exn_msg :: "exn \<Rightarrow> string" where
  "exn_msg (Exn c m) = m"

text \<open>\<^verbatim>\<open>ce.__class__.__name__\<close>.\<close>

fun class_name :: "exn_class \<Rightarrow> string" where
  "class_name RuntimeError = ''RuntimeError''"
| "class_name TypeError = ''TypeError''"
| "class_name NameError = ''NameError''"
| "class_name KeyError = ''KeyError''"
| "class_name IndexError = ''IndexError''"
| "class_name ValueError = ''ValueError''"
| "class_name OverflowError = ''OverflowError''"
| "class_name OSError = ''OSError''"
| "class_name (OtherError n) = n"

text \<open>
  The operations on which the interpreter itself raises. The wording of its messages
  changes from one Python version to the next and is left to the environment.
\<close>

datatype fault =
    Subscript json json
  | IndexRange json nat
  | IntOf json
  | StrPlusRequest
  | JoinNonStr

text \<open>
  A request is the \<^verbatim>\<open>urllib.request.Request\<close> object: the endpoint and the query
  parameters given to \<^verbatim>\<open>urlencode\<close>.
\<close>

datatype request = Request string "(string \<times> pyfloat) list"

text \<open>
  \<^verbatim>\<open>urlopen(url)\<close> followed by \<^verbatim>\<open>response.read()\<close>: an \<^verbatim>\<open>URLError\<close> (with
  \<^verbatim>\<open>str(re.reason)\<close>), an exception of another class, or the bytes of the body.
\<close>

datatype http_result = URLError string | HttpRaises exn | Body string

text \<open>
  \<^verbatim>\<open>json.loads(body)\<close>: the parsed value, a \<^verbatim>\<open>JSONDecodeError\<close> with its fields
  \<^verbatim>\<open>msg\<close>, \<^verbatim>\<open>doc\<close>, \<^verbatim>\<open>pos\<close>, \<^verbatim>\<open>lineno\<close> and \<^verbatim>\<open>colno\<close>, or an exception of another
  class (\<^verbatim>\<open>UnicodeDecodeError\<close> on bytes that are no text).
\<close>

datatype loads_result =
    Parsed json
  | JSONDecodeError string string int int int
  | LoadsRaises exn

text \<open>
  The environment of one run. \<open>fromtimestamp\<close> is \<^verbatim>\<open>datetime.fromtimestamp\<close> in the
  local time zone, already as the text that \<^verbatim>\<open>str\<close> and \<^verbatim>\<open>format\<close> give for the
  datetime; it raises outside the years 1 to 9999. \<open>py_repr\<close> is \<^verbatim>\<open>repr\<close>, used for
  floats, lists and dicts. \<open>style_converts\<close> tells whether \<^verbatim>\<open>click.style\<close> turns a
  text that is no string into one with \<^verbatim>\<open>str\<close> (click 8.0 and later) or joins it as
  it is and raises \<^verbatim>\<open>TypeError\<close> (click 7).
\<close>

record env =
  urlopen :: "request \<Rightarrow> http_result"
  loads :: "string \<Rightarrow> loads_result"
  fromtimestamp :: "int \<Rightarrow> exn + string"
  py_repr :: "json \<Rightarrow> string"
  fault_msg :: "fault \<Rightarrow> string"
  style_converts :: bool

section \<open>Output and control\<close>

text \<open>
  \<^verbatim>\<open>click.echo(click.style(text, fg=..., bold=...))\<close> prints one styled text, followed
  by a line break.
\<close>

datatype colour = Red | Green | BrightWhite

datatype line = Line colour bool string

text \<open>
  A statement ends normally, raises, or leaves through \<^verbatim>\<open>exit(n)\<close>. A computation is
  the list of lines it printed and the way it ended.
\<close>

datatype 'a res = Ok 'a | Raise exn | SysExit int

type_synonym 'a comp = "line list \<times> 'a res"

definition echo :: "line \<Rightarrow> unit comp" where
  "echo l = ([l], Ok ())"

definition py_exit :: "int \<Rightarrow> unit comp" where
  "py_exit n = ([], SysExit n)"

definition clift :: "exn + 'a \<Rightarrow> 'a comp" where
  "clift r = (case r of Inl e \<Rightarrow> ([], Raise e) | Inr x \<Rightarrow> ([], Ok x))"

definition cbind :: "'a comp \<Rightarrow> ('a \<Rightarrow> 'b comp) \<Rightarrow> 'b comp" where
  "cbind m f =
     (case m of
        (ls, Ok x) \<Rightarrow> (case f x of (ls', r) \<Rightarrow> (ls @ ls', r))
      | (ls, Raise e) \<Rightarrow> (ls, Raise e)
      | (ls, SysExit n) \<Rightarrow> (ls, SysExit n))"

text \<open>Statements one after the other.\<close>

fun run_all :: "unit comp list \<Rightarrow> unit comp" where
  "run_all [] = ([], Ok ())"
| "run_all (c # cs) = cbind c (\<lambda>u. run_all cs)"

text \<open>Expressions that may raise, one after the other.\<close>

definition bnd :: "exn + 'a \<Rightarrow> ('a \<Rightarrow> exn + 'b) \<Rightarrow> exn + 'b" where
  "bnd r f = (case r of Inl e \<Rightarrow> Inl e | Inr x \<Rightarrow> f x)"

section \<open>Built-in operations\<close>

text \<open>
  \<^verbatim>\<open>v[k]\<close> with a string \<open>k\<close>: a dict gives the value or \<^verbatim>\<open>KeyError\<close> (whose text is
  the \<^verbatim>\<open>repr\<close> of the key), everything else \<^verbatim>\<open>TypeError\<close>.
\<close>

definition subscript :: "env \<Rightarrow> json \<Rightarrow> string \<Rightarrow> exn + json" where
  "subscript env v k =
     (case v of
        JDict kvs \<Rightarrow>
          (case map_of kvs k of
             Some x \<Rightarrow> Inr x
           | None \<Rightarrow> Inl (Exn KeyError (py_repr env (JStr k))))
      | _ \<Rightarrow> Inl (Exn TypeError (fault_msg env (Subscript v (JStr k)))))"

text \<open>
  \<^verbatim>\<open>v[x]\<close> with \<open>x\<close> from \<^verbatim>\<open>range(n)\<close>, so never negative: a list or a string
  gives the element or \<^verbatim>\<open>IndexError\<close>; a dict from the decoder has string keys only,
  so \<^verbatim>\<open>KeyError\<close>; everything else \<^verbatim>\<open>TypeError\<close>.
\<close>

definition index_at :: "env \<Rightarrow> json \<Rightarrow> nat \<Rightarrow> exn + json" where
  "index_at env v x =
     (case v of
        JList xs \<Rightarrow>
          (if x < length xs then Inr (xs ! x)
           else Inl (Exn IndexError (fault_msg env (IndexRange v x))))
      | JStr s \<Rightarrow>
          (if x < length s then Inr (JStr [s ! x])
           else Inl (Exn IndexError (fault_msg env (IndexRange v x))))
      | JDict kvs \<Rightarrow> Inl (Exn KeyError (py_repr env (JInt (int x))))
      | _ \<Rightarrow> Inl (Exn TypeError (fault_msg env (Subscript v (JInt (int x))))))"

text \<open>
  \<^verbatim>\<open>int(s)\<close> of a string: blanks around are dropped (the characters 9 to 13, 28 to
  32, 133 and 160), one sign may lead, then decimal digits, with single underscores
  between digits. (Digits and blanks beyond character 255 and the interpreter's limit
  on the length of the literal are left out.)
\<close>

definition is_space :: "char \<Rightarrow> bool" where
  "is_space c =
     (let n = (of_char c :: nat)
      in (9 \<le> n \<and> n \<le> 13) \<or> (28 \<le> n \<and> n \<le> 32) \<or> n = 133 \<or> n = 160)"

definition is_digit :: "char \<Rightarrow> bool" where
  "is_digit c = (let n = (of_char c :: nat) in 48 \<le> n \<and> n \<le> 57)"

definition digit_val :: "char \<Rightarrow> nat" where
  "digit_val c = of_char c - 48"

fun parse_digits :: "bool \<Rightarrow> nat \<Rightarrow> string \<Rightarrow> nat option" where
  "parse_digits prev acc [] = (if prev then Some acc else None)"
| "parse_digits prev acc (c # cs) =
     (if is_digit c then parse_digits True (acc * 10 + digit_val c) cs
      else if c = CHR ''_'' \<and> prev then parse_digits False acc cs
      else None)"

definition strip :: "string \<Rightarrow> string" where
  "strip s = rev (dropWhile is_space (rev (dropWhile is_space s)))"

definition int_of_str :: "string \<Rightarrow> int option" where
  "int_of_str s =
     (case strip s of
        [] \<Rightarrow> None
      | c # cs \<Rightarrow>
          if c = CHR ''-'' then map_option (\<lambda>n. - int n) (parse_digits False 0 cs)
          else if c = CHR ''+'' then map_option int (parse_digits False 0 cs)
          else map_option int (parse_digits False 0 (c # cs)))"

text \<open>
  \<^verbatim>\<open>int(v)\<close>: an int is itself, a bool is 0 or 1, a float is cut towards zero
  (\<^verbatim>\<open>ValueError\<close> on NaN, \<^verbatim>\<open>OverflowError\<close> on an infinity), a string is read as a
  literal or raises \<^verbatim>\<open>ValueError\<close>; \<^verbatim>\<open>None\<close>, a list and a dict raise \<^verbatim>\<open>TypeError\<close>.
\<close>

definition py_int :: "env \<Rightarrow> json \<Rightarrow> exn + int" where
  "py_int env v =
     (case v of
        JInt i \<Rightarrow> Inr i
      | JBool b \<Rightarrow> Inr (if b then 1 else 0)
      | JFloat f \<Rightarrow>
          (case f of
             Finite r \<Rightarrow> Inr (if 0 \<le> r then \<lfloor>r\<rfloor> else \<lceil>r\<rceil>)
           | NaN \<Rightarrow> Inl (Exn ValueError (fault_msg env (IntOf v)))
           | _ \<Rightarrow> Inl (Exn OverflowError (fault_msg env (IntOf v))))
      | JStr s \<Rightarrow>
          (case int_of_str s of
             Some i \<Rightarrow> Inr i
           | None \<Rightarrow> Inl (Exn ValueError (fault_msg env (IntOf v))))
      | _ \<Rightarrow> Inl (Exn TypeError (fault_msg env (IntOf v))))"

text \<open>\<^verbatim>\<open>str(n)\<close> of an int: its decimal digits.\<close>

definition digit_char :: "nat \<Rightarrow> char" where
  "digit_char d = char_of (48 + d)"

fun str_nat :: "nat \<Rightarrow> string" where
  "str_nat n = (if n < 10 then [digit_char n] else str_nat (n div 10) @ [digit_char (n mod 10)])"

declare str_nat.simps [simp del]

definition str_int :: "int \<Rightarrow> string" where
  "str_int i = (if i < 0 then CHR ''-'' # str_nat (nat (- i)) else str_nat (nat i))"

text \<open>
  \<^verbatim>\<open>str(v)\<close> of a parsed value: a string is itself, an int its digits, and the
  \<^verbatim>\<open>repr\<close> otherwise.
\<close>

definition py_str :: "env \<Rightarrow> json \<Rightarrow> string" where
  "py_str env v =
     (case v of
        JStr s \<Rightarrow> s
      | JInt i \<Rightarrow> str_int i
      | JBool b \<Rightarrow> (if b then ''True'' else ''False'')
      | JNull \<Rightarrow> ''None''
      | _ \<Rightarrow> py_repr env v)"

text \<open>The format \<^verbatim>\<open>{x: >20}\<close> of a string: blanks on the left up to the width.\<close>

definition rjust :: "nat \<Rightarrow> string \<Rightarrow> string" where
  "rjust w s = replicate (w - length s) CHR '' '' @ s"

definition nl :: string where
  "nl = [CHR 0x0A]"

text \<open>
  \<^verbatim>\<open>'...' + url\<close>, where \<open>url\<close> is a string or a \<^verbatim>\<open>Request\<close> object: Python adds a
  string to a string only.
\<close>

datatype pyurl = UrlStr string | UrlRequest request

definition str_add :: "env \<Rightarrow> string \<Rightarrow> pyurl \<Rightarrow> exn + string" where
  "str_add env s u =
     (case u of
        UrlStr t \<Rightarrow> Inr (s @ t)
      | UrlRequest r \<Rightarrow> Inl (Exn TypeError (fault_msg env StrPlusRequest)))"

text \<open>\<^verbatim>\<open>click.echo(click.style(n, fg=c))\<close> with an int \<open>n\<close>.\<close>

definition echo_int :: "env \<Rightarrow> colour \<Rightarrow> int \<Rightarrow> unit comp" where
  "echo_int env c n =
     (if style_converts env then echo (Line c False (str_int n))
      else ([], Raise (Exn TypeError (fault_msg env JoinNonStr))))"

section \<open>The program\<close>

subsection \<open>The class and its error reports\<close>

definition LOCATION_URL :: string where
  "LOCATION_URL = ''http://api.open-notify.org/iss-now.json''"

definition PASSING_URL :: string where
  "PASSING_URL = ''http://api.open-notify.org/iss-pass.json''"

definition PEOPLE_URL :: string where
  "PEOPLE_URL = ''http://api.open-notify.org/astros.json''"

text \<open>
  An instance has two attributes. The constructor's \<^verbatim>\<open>self.latitude = latitude,\<close> ends
  in a comma, so the attribute is a tuple of one element (a list here).
\<close>

record iss_instance =
  latitude :: "pyfloat list"
  longitude :: pyfloat

definition ISSSpaceStation :: "pyfloat \<Rightarrow> pyfloat \<Rightarrow> iss_instance" where
  "ISSSpaceStation lat lon = \<lparr>latitude = [lat], longitude = lon\<rparr>"

text \<open>\<^verbatim>\<open>request_error(re)\<close>, given \<^verbatim>\<open>str(re.reason)\<close>.\<close>

definition request_error :: "string \<Rightarrow> unit comp" where
  "request_error reason = run_all [echo (Line Red False reason), py_exit (- 1)]"

text \<open>\<^verbatim>\<open>json_error(je)\<close>, given the five fields of the error.\<close>

definition json_error :: "env \<Rightarrow> string \<Rightarrow> string \<Rightarrow> int \<Rightarrow> int \<Rightarrow> int \<Rightarrow> unit comp" where
  "json_error env msg doc pos lineno colno =
     run_all
       [echo (Line Red False msg),
        echo (Line Red False doc),
        echo_int env Red pos,
        echo_int env Red lineno,
        echo_int env Red colno,
        py_exit (- 1)]"

definition common_text :: "env \<Rightarrow> exn \<Rightarrow> json \<Rightarrow> string" where
  "common_text env ce obj =
     ''Common error.'' @ nl @ ''Error type: '' @ class_name (exn_cls ce)
       @ nl @ ''Error: '' @ exn_msg ce
       @ nl @ ''Data: '' @ py_str env obj"

definition common_error :: "env \<Rightarrow> exn \<Rightarrow> json \<Rightarrow> unit comp" where
  "common_error env ce obj =
     run_all [echo (Line Red False (common_text env ce obj)), py_exit (- 1)]"

text \<open>
  \<^verbatim>\<open>message_error(obj, url)\<close>. The callers pass the \<^verbatim>\<open>Request\<close> object as \<open>url\<close>.
\<close>

definition message_error :: "env \<Rightarrow> json \<Rightarrow> pyurl \<Rightarrow> unit comp" where
  "message_error env obj url =
     cbind (clift (subscript env obj ''message'')) (\<lambda>m.
       run_all
         [if m = JStr ''failure''
          then cbind (clift (subscript env obj ''reason'')) (\<lambda>r.
                 echo (Line Red False (py_str env r)))
          else cbind (clift (str_add env ''Unknown error. Url: '' url)) (\<lambda>s.
                 echo (Line Red False (s @ '' Response: '' @ py_str env obj))),
          py_exit (- 1)])"

text \<open>
  The clause \<^verbatim>\<open>except (RuntimeError, TypeError, NameError, KeyError) as ce\<close> around
  the reading of the parsed response.
\<close>

definition caught :: "exn_class \<Rightarrow> bool" where
  "caught c = (c = RuntimeError \<or> c = TypeError \<or> c = NameError \<or> c = KeyError)"

definition try_common :: "env \<Rightarrow> json \<Rightarrow> unit comp \<Rightarrow> unit comp" where
  "try_common env obj body =
     (case body of
        (ls, Raise e) \<Rightarrow>
          (if caught (exn_cls e)
           then (case common_error env e obj of (ls', r) \<Rightarrow> (ls @ ls', r))
           else (ls, Raise e))
      | (ls, r) \<Rightarrow> (ls, r))"

text \<open>
  What one operation did: the lines printed, the requests sent, and how it ended
  (\<open>Ok ()\<close> is the normal return, \<open>Raise e\<close> an exception that nothing caught).
\<close>

record result =
  printed :: "line list"
  requests :: "request list"
  outcome :: "unit res"

definition finish :: "request list \<Rightarrow> unit comp \<Rightarrow> result" where
  "finish rs c = \<lparr>printed = fst c, requests = rs, outcome = snd c\<rparr>"

text \<open>
  The three operations begin with the same lines: open the URL (\<^verbatim>\<open>URLError\<close> goes to
  \<^verbatim>\<open>request_error\<close>), decode the body (\<^verbatim>\<open>JSONDecodeError\<close> goes to
  \<^verbatim>\<open>json_error\<close>), then read the parsed object inside the \<^verbatim>\<open>try\<close>.
\<close>

definition open_and_load :: "env \<Rightarrow> request \<Rightarrow> (json \<Rightarrow> pyurl \<Rightarrow> unit comp) \<Rightarrow> result" where
  "open_and_load env url body =
     (case urlopen env url of
        URLError reason \<Rightarrow> finish [url] (request_error reason)
      | HttpRaises e \<Rightarrow> finish [url] ([], Raise e)
      | Body b \<Rightarrow>
          (case loads env b of
             JSONDecodeError msg doc pos lineno colno \<Rightarrow>
               finish [url] (json_error env msg doc pos lineno colno)
           | LoadsRaises e \<Rightarrow> finish [url] ([], Raise e)
           | Parsed obj \<Rightarrow>
               finish [url] (try_common env obj (body obj (UrlRequest url)))))"

subsection \<open>location\<close>

definition location_body :: "env \<Rightarrow> json \<Rightarrow> pyurl \<Rightarrow> unit comp" where
  "location_body env obj url =
     cbind (clift (subscript env obj ''message'')) (\<lambda>m.
       if m = JStr ''success'' then
         cbind (clift (bnd (subscript env obj ''timestampss'') (py_int env))) (\<lambda>ts.
         cbind (clift (fromtimestamp env ts)) (\<lambda>timestamp.
         cbind (clift (bnd (subscript env obj ''iss_position'')
                         (\<lambda>p. subscript env p ''latitude''))) (\<lambda>lat.
         cbind (clift (bnd (subscript env obj ''iss_position'')
                         (\<lambda>p. subscript env p ''longitude''))) (\<lambda>lon.
           run_all
             [echo (Line BrightWhite True (nl @ ''The ISS current location'')),
              echo (Line Green False (nl @ ''Time:      '' @ timestamp)),
              echo (Line Green False (''Latitude:  '' @ py_str env lat)),
              echo (Line Green False (''Longitude: '' @ py_str env lon))]))))
       else message_error env obj url)"

definition location_request :: request where
  "location_request = Request LOCATION_URL []"

definition location :: "env \<Rightarrow> result" where
  "location env = open_and_load env location_request (location_body env)"

subsection \<open>passing\<close>

definition dashes :: string where
  "dashes = ''----------------------------------------------''"

definition rule_line :: string where
  "rule_line = ''-----------------------+----------------------''"

text \<open>One turn of \<^verbatim>\<open>for x in range(passes)\<close>.\<close>

definition pass_row :: "env \<Rightarrow> json \<Rightarrow> nat \<Rightarrow> unit comp" where
  "pass_row env obj x =
     cbind (clift (bnd (subscript env obj ''response'') (\<lambda>r.
                   bnd (index_at env r x) (\<lambda>e. subscript env e ''duration'')))) (\<lambda>d.
     cbind (clift (bnd (subscript env obj ''response'') (\<lambda>r.
                   bnd (index_at env r x) (\<lambda>e.
                   bnd (subscript env e ''risetime'') (py_int env))))) (\<lambda>risetime.
     cbind (clift (fromtimestamp env risetime)) (\<lambda>rs.
       echo (Line Green False
               (''| '' @ rjust 20 (py_str env d) @ '' | '' @ rjust 20 rs @ ''|'')))))"

text \<open>\<^verbatim>\<open>range(n)\<close>: empty when \<open>n\<close> is not positive.\<close>

definition py_range :: "int \<Rightarrow> nat list" where
  "py_range n = [0..<nat n]"

definition passing_body :: "env \<Rightarrow> json \<Rightarrow> pyurl \<Rightarrow> unit comp" where
  "passing_body env obj url =
     run_all
       [cbind (clift (subscript env obj ''message'')) (\<lambda>m.
          if m = JStr ''success'' then
            cbind (clift (bnd (subscript env obj ''request'')
                            (\<lambda>q. subscript env q ''latitude''))) (\<lambda>lat.
            cbind (clift (bnd (subscript env obj ''request'')
                            (\<lambda>q. subscript env q ''longitude''))) (\<lambda>lon.
            cbind (clift (bnd (subscript env obj ''request'') (\<lambda>q.
                          bnd (subscript env q ''passes'') (py_int env)))) (\<lambda>passes.
              run_all
                ([echo (Line BrightWhite True (nl @ ''The ISS will be overhead'')),
                  echo (Line Green False (nl @ ''Latitude:  '' @ py_str env lat)),
                  echo (Line Green False (''Longitude: '' @ py_str env lon)),
                  echo (Line Green False (''Passes: '' @ str_int passes @ nl)),
                  echo (Line Green False dashes),
                  echo (Line Green False ''| Duration             | Risetime            |''),
                  echo (Line Green False rule_line)]
                 @ map (pass_row env obj) (py_range passes)))))
          else message_error env obj url),
        echo (Line Green False dashes)]"

definition passing_request :: "pyfloat \<Rightarrow> pyfloat \<Rightarrow> request" where
  "passing_request lat lon = Request PASSING_URL [(''lat'', lat), (''lon'', lon)]"

definition passing :: "env \<Rightarrow> pyfloat \<Rightarrow> pyfloat \<Rightarrow> result" where
  "passing env latitide lon =
     (if flt_lt latitide (Finite (- 80)) \<or> flt_gt latitide (Finite 80) then
        finish []
          (run_all
             [echo (Line Red False ''Latitude must be number between -80.0 and 80.0''),
              py_exit (- 1)])
      else if flt_lt lon (Finite (- 180)) \<or> flt_gt lon (Finite 180) then
        finish []
          (run_all
             [echo (Line Red False ''Longitude must be number between -180.0 and 180.0''),
              py_exit (- 1)])
      else open_and_load env (passing_request latitide lon) (passing_body env))"

subsection \<open>people\<close>

text \<open>One turn of \<^verbatim>\<open>for i in range(number_of_people_in_space)\<close>.\<close>

definition people_row :: "env \<Rightarrow> json \<Rightarrow> nat \<Rightarrow> unit comp" where
  "people_row env obj i =
     cbind (clift (bnd (subscript env obj ''people'') (\<lambda>ps.
                   bnd (index_at env ps i) (\<lambda>p. subscript env p ''name'')))) (\<lambda>person.
     cbind (clift (bnd (subscript env obj ''people'') (\<lambda>ps.
                   bnd (index_at env ps i) (\<lambda>p. subscript env p ''craft'')))) (\<lambda>craft.
       echo (Line Green False
               (''| '' @ rjust 20 (py_str env person) @ '' | ''
                  @ rjust 20 (py_str env craft) @ ''|''))))"

definition people_body :: "env \<Rightarrow> json \<Rightarrow> pyurl \<Rightarrow> unit comp" where
  "people_body env obj url =
     run_all
       [cbind (clift (subscript env obj ''message'')) (\<lambda>m.
          if m = JStr ''success'' then
            cbind (clift (bnd (subscript env obj ''number'') (py_int env))) (\<lambda>number.
              run_all
                ([echo (Line BrightWhite True (nl @ ''The people now on the Space'' @ nl)),
                  echo (Line Green False dashes),
                  echo (Line Green False ''| Name                 | Craft               |''),
                  echo (Line Green False rule_line)]
                 @ map (people_row env obj) (py_range number)))
          else message_error env obj url),
        echo (Line Green False dashes)]"

definition people_request :: request where
  "people_request = Request PEOPLE_URL []"

definition people :: "env \<Rightarrow> result" where
  "people env = open_and_load env people_request (people_body env)"

subsection \<open>The commands\<close>

text \<open>
  The three operations are class methods: called on an instance, they get the class
  and not the instance.
\<close>

definition iss_location :: "env \<Rightarrow> iss_instance \<Rightarrow> result" where
  "iss_location env iss = location env"

definition iss_passing :: "env \<Rightarrow> iss_instance \<Rightarrow> pyfloat \<Rightarrow> pyfloat \<Rightarrow> result" where
  "iss_passing env iss lat lon = passing env lat lon"

definition iss_people :: "env \<Rightarrow> iss_instance \<Rightarrow> result" where
  "iss_people env iss = people env"

definition make_loc :: "env \<Rightarrow> result" where
  "make_loc env = (let iss = ISSSpaceStation (Finite 0) (Finite 0) in iss_location env iss)"

definition make_passing :: "env \<Rightarrow> pyfloat \<Rightarrow> pyfloat \<Rightarrow> result" where
  "make_passing env lat lon = (let iss = ISSSpaceStation lat lon in iss_passing env iss lat lon)"

definition make_people :: "env \<Rightarrow> result" where
  "make_people env = (let iss = ISSSpaceStation (Finite 0) (Finite 0) in iss_people env iss)"

text \<open>
  The command line, once click has parsed it: \<^verbatim>\<open>loc\<close>, \<^verbatim>\<open>pass --lat a --lon b\<close>
  (the options are floats, 0.0 when left out) or \<^verbatim>\<open>people\<close>. The group is declared
  with \<^verbatim>\<open>chain=True\<close>, so several commands may follow one another; they run in order
  until one does not return.
\<close>

datatype command = Loc | Pass pyfloat pyfloat | People

definition run_command :: "env \<Rightarrow> command \<Rightarrow> result" where
  "run_command env c =
     (case c of
        Loc \<Rightarrow> make_loc env
      | Pass lat lon \<Rightarrow> make_passing env lat lon
      | People \<Rightarrow> make_people env)"

fun cli :: "env \<Rightarrow> command \<Rightarrow> command list \<Rightarrow> result" where
  "cli env c [] = run_command env c"
| "cli env c (d # ds) =
     (let r = run_command env c
      in if outcome r = Ok ()
         then (let r' = cli env d ds
               in \<lparr>printed = printed r @ printed r', requests = requests r @ requests r',
                   outcome = outcome r'\<rparr>)
         else r)"

text \<open>
  The exit code of the process: \<^verbatim>\<open>cli()\<close> runs click's standalone mode, which leaves
  with 0 once the commands have returned; \<^verbatim>\<open>exit(n)\<close> leaves with \<open>n\<close>; an exception
  that nothing catches makes the interpreter leave with 1.
\<close>

definition exit_code :: "unit res \<Rightarrow> int" where
  "exit_code r = (case r of Ok u \<Rightarrow> 0 | SysExit n \<Rightarrow> n | Raise e \<Rightarrow> 1)"

definition main :: "env \<Rightarrow> command \<Rightarrow> command list \<Rightarrow> int" where
  "main env c cs = exit_code (outcome (cli env c cs))"

section \<open>Words for the statements\<close>

text \<open>The two range checks of \<^verbatim>\<open>passing\<close> both let the coordinates through.\<close>

definition coords_accepted :: "pyfloat \<Rightarrow> pyfloat \<Rightarrow> bool" where
  "coords_accepted lat lon =
     (\<not> (flt_lt lat (Finite (- 80)) \<or> flt_gt lat (Finite 80))
      \<and> \<not> (flt_lt lon (Finite (- 180)) \<or> flt_gt lon (Finite 180)))"

text \<open>The request is answered by a body that decodes to \<open>obj\<close>.\<close>

definition answered :: "env \<Rightarrow> request \<Rightarrow> json \<Rightarrow> bool" where
  "answered env url obj =
     (case urlopen env url of Body b \<Rightarrow> loads env b = Parsed obj | _ \<Rightarrow> False)"

text \<open>The request is answered by a body on which the decoder raises \<^verbatim>\<open>JSONDecodeError\<close>.\<close>

definition malformed :: "env \<Rightarrow> request \<Rightarrow> string \<Rightarrow> string \<Rightarrow> int \<Rightarrow> int \<Rightarrow> int \<Rightarrow> bool" where
  "malformed env url msg doc pos lineno colno =
     (case urlopen env url of
        Body b \<Rightarrow> loads env b = JSONDecodeError msg doc pos lineno colno
      | _ \<Rightarrow> False)"

definition message_is :: "env \<Rightarrow> json \<Rightarrow> string \<Rightarrow> bool" where
  "message_is env obj m = (subscript env obj ''message'' = Inr (JStr m))"

text \<open>
  What a row of the passing table needs from its entry: the duration, and the rise
  time as an int that the clock converts. \<open>None\<close> when one of the reads raises.
\<close>

definition pass_entry :: "env \<Rightarrow> json \<Rightarrow> (json \<times> string) option" where
  "pass_entry env e =
     (case subscript env e ''duration'' of
        Inl x \<Rightarrow> None
      | Inr d \<Rightarrow>
          (case bnd (bnd (subscript env e ''risetime'') (py_int env)) (fromtimestamp env) of
             Inl x \<Rightarrow> None
           | Inr rs \<Rightarrow> Some (d, rs)))"

definition pass_line :: "env \<Rightarrow> json \<times> string \<Rightarrow> line" where
  "pass_line env row =
     Line Green False
       (''| '' @ rjust 20 (py_str env (fst row)) @ '' | '' @ rjust 20 (snd row) @ ''|'')"

definition pass_header :: "env \<Rightarrow> json \<Rightarrow> json \<Rightarrow> int \<Rightarrow> line list" where
  "pass_header env lat lon passes =
     [Line BrightWhite True (nl @ ''The ISS will be overhead''),
      Line Green False (nl @ ''Latitude:  '' @ py_str env lat),
      Line Green False (''Longitude: '' @ py_str env lon),
      Line Green False (''Passes: '' @ str_int passes @ nl),
      Line Green False dashes,
      Line Green False ''| Duration             | Risetime            |'',
      Line Green False rule_line]"

text \<open>The same for the people table: the name and the craft of an entry.\<close>

definition people_entry :: "env \<Rightarrow> json \<Rightarrow> (json \<times> json) option" where
  "people_entry env p =
     (case subscript env p ''name'' of
        Inl x \<Rightarrow> None
      | Inr person \<Rightarrow>
          (case subscript env p ''craft'' of
             Inl x \<Rightarrow> None
           | Inr craft \<Rightarrow> Some (person, craft)))"

definition people_line :: "env \<Rightarrow> json \<times> json \<Rightarrow> line" where
  "people_line env row =
     Line Green False
       (''| '' @ rjust 20 (py_str env (fst row)) @ '' | ''
          @ rjust 20 (py_str env (snd row)) @ ''|'')"

definition people_header :: "line list" where
  "people_header =
     [Line BrightWhite True (nl @ ''The people now on the Space'' @ nl),
      Line Green False dashes,
      Line Green False ''| Name                 | Craft               |'',
      Line Green False rule_line]"

text \<open>The lines of \<^verbatim>\<open>json_error\<close> and the line of \<^verbatim>\<open>common_error\<close>.\<close>

definition decode_report :: "string \<Rightarrow> string \<Rightarrow> int \<Rightarrow> int \<Rightarrow> int \<Rightarrow> line list" where
  "decode_report msg doc pos lineno colno =
     [Line Red False msg, Line Red False doc, Line Red False (str_int pos),
      Line Red False (str_int lineno), Line Red False (str_int colno)]"

definition common_line :: "env \<Rightarrow> exn \<Rightarrow> json \<Rightarrow> line" where
  "common_line env ce obj = Line Red False (common_text env ce obj)"

text \<open>
  For a command: whether its arguments pass the checks made before the request, the
  request it then sends, and the statements of its \<^verbatim>\<open>try\<close> block.
\<close>

definition command_valid :: "command \<Rightarrow> bool" where
  "command_valid c = (case c of Pass lat lon \<Rightarrow> coords_accepted lat lon | _ \<Rightarrow> True)"

definition request_of :: "command \<Rightarrow> request" where
  "request_of c =
     (case c of
        Loc \<Rightarrow> location_request
      | Pass lat lon \<Rightarrow> passing_request lat lon
      | People \<Rightarrow> people_request)"

definition body_of :: "env \<Rightarrow> command \<Rightarrow> json \<Rightarrow> pyurl \<Rightarrow> unit comp" where
  "body_of env c =
     (case c of
        Loc \<Rightarrow> location_body env
      | Pass lat lon \<Rightarrow> passing_body env
      | People \<Rightarrow> people_body env)"

section \<open>Sample environments\<close>

text \<open>
  Canned answers, for trying the statements out: a machine whose clock is in UTC
  (known at two instants), a network that gives the same answer to every request and a
  decoder that gives the same result for every body. The \<^verbatim>\<open>repr\<close> of a value and the
  interpreter's messages stand as the fixed texts \<^verbatim>\<open><repr>\<close> and \<^verbatim>\<open><message>\<close>, and
  \<^verbatim>\<open>click.style\<close> converts.
\<close>

definition sample_clock :: "int \<Rightarrow> exn + string" where
  "sample_clock t =
     (if t = 1690000000 then Inr ''2023-07-22 04:26:40''
      else if t = 1690003600 then Inr ''2023-07-22 05:26:40''
      else Inl (Exn OverflowError ''timestamp out of range''))"

definition canned :: "http_result \<Rightarrow> loads_result \<Rightarrow> env" where
  "canned h l =
     \<lparr>urlopen = (\<lambda>r. h), loads = (\<lambda>b. l), fromtimestamp = sample_clock,
      py_repr = (\<lambda>v. ''<repr>''), fault_msg = (\<lambda>f. ''<message>''),
      style_converts = True\<rparr>"

definition sample_location :: json where
  "sample_location =
     JDict [(''message'', JStr ''success''),
            (''timestampss'', JInt 1690000000),
            (''iss_position'',
               JDict [(''latitude'', JStr ''10.1''), (''longitude'', JStr ''-20.2'')])]"

definition sample_passes :: "json list" where
  "sample_passes =
     [JDict [(''duration'', JInt 600), (''risetime'', JInt 1690000000)],
      JDict [(''duration'', JInt 540), (''risetime'', JInt 1690003600)]]"

definition sample_passing :: "int \<Rightarrow> json" where
  "sample_passing n =
     JDict [(''message'', JStr ''success''),
            (''request'',
               JDict [(''latitude'', JInt 45), (''longitude'', JInt 10), (''passes'', JInt n)]),
            (''response'', JList sample_passes)]"

definition sample_crew :: "json list" where
  "sample_crew =
     [JDict [(''name'', JStr ''Ann''), (''craft'', JStr ''ISS'')],
      JDict [(''name'', JStr ''Bo''), (''craft'', JStr ''ISS'')],
      JDict [(''name'', JStr ''Cy''), (''craft'', JStr ''Tiangong'')]]"

definition sample_people :: "int \<Rightarrow> json" where
  "sample_people n =
     JDict [(''message'', JStr ''success''), (''number'', JInt n),
            (''people'', JList sample_crew)]"

section \<open>Rules for the control operators\<close>

lemma cbind_echo [simp]: "cbind (echo l) f = (l # fst (f ()), snd (f ()))"
  by (simp add: cbind_def echo_def split: prod.splits)

lemma cbind_clift_Inr [simp]: "cbind (clift (Inr x)) f = f x"
  by (simp add: cbind_def clift_def split: prod.splits)

lemma cbind_clift_Inl [simp]: "cbind (clift (Inl e)) f = ([], Raise e)"
  by (simp add: cbind_def clift_def)

lemma cbind_py_exit [simp]: "cbind (py_exit n) f = ([], SysExit n)"
  by (simp add: cbind_def py_exit_def)

lemma cbind_Raise [simp]: "cbind (ls, Raise e) f = (ls, Raise e)"
  by (simp add: cbind_def)

lemma cbind_SysExit [simp]: "cbind (ls, SysExit n) f = (ls, SysExit n)"
  by (simp add: cbind_def)

lemma cbind_Ok [simp]: "cbind (ls, Ok x) f = (ls @ fst (f x), snd (f x))"
  by (simp add: cbind_def split: prod.splits)

lemma bnd_Inr [simp]: "bnd (Inr x) f = f x"
  by (simp add: bnd_def)

lemma bnd_Inl [simp]: "bnd (Inl e) f = Inl e"
  by (simp add: bnd_def)

lemma run_all_append: "run_all (cs @ ds) = cbind (run_all cs) (\<lambda>u. run_all ds)"
  by (induction cs) (auto simp: cbind_def split: prod.splits res.splits)

lemma run_all_rows:
  "(\<And>x. x \<in> set xs \<Longrightarrow> f x = ([g x], Ok ())) \<Longrightarrow> run_all (map f xs) = (map g xs, Ok ())"
  by (induction xs) (auto simp: cbind_def)

lemma run_all_rows_stop:
  "(\<And>x. x \<in> set xs \<Longrightarrow> f x = ([g x], Ok ())) \<Longrightarrow> f y = ([], Raise e) \<Longrightarrow>
   run_all (map f (xs @ y # ys)) = (map g xs, Raise e)"
  by (induction xs) (auto simp: cbind_def)

lemma try_common_Ok [simp]: "try_common env obj (ls, Ok u) = (ls, Ok u)"
  by (simp add: try_common_def)

lemma try_common_SysExit [simp]: "try_common env obj (ls, SysExit n) = (ls, SysExit n)"
  by (simp add: try_common_def)

lemma common_error_eq: "common_error env e obj = ([common_line env e obj], SysExit (- 1))"
  by (simp add: common_error_def common_line_def py_exit_def)

lemma try_common_caught:
  "caught (exn_cls e) \<Longrightarrow>
   try_common env obj (ls, Raise e) = (ls @ [common_line env e obj], SysExit (- 1))"
  by (simp add: try_common_def common_error_eq)

lemma try_common_escapes:
  "\<not> caught (exn_cls e) \<Longrightarrow> try_common env obj (ls, Raise e) = (ls, Raise e)"
  by (simp add: try_common_def)

section \<open>The request and the two first handlers\<close>

lemma requests_open_and_load: "requests (open_and_load env url body) = [url]"
  by (simp add: open_and_load_def finish_def split: http_result.splits loads_result.splits)

lemma open_and_load_URLError:
  "urlopen env url = URLError reason \<Longrightarrow>
   open_and_load env url body =
     \<lparr>printed = [Line Red False reason], requests = [url], outcome = SysExit (- 1)\<rparr>"
  by (simp add: open_and_load_def finish_def request_error_def py_exit_def)

lemma json_error_eq:
  "style_converts env \<Longrightarrow>
   json_error env msg doc pos lineno colno =
     (decode_report msg doc pos lineno colno, SysExit (- 1))"
  by (simp add: json_error_def echo_int_def decode_report_def py_exit_def)

lemma open_and_load_malformed:
  "style_converts env \<Longrightarrow> malformed env url msg doc pos lineno colno \<Longrightarrow>
   open_and_load env url body =
     \<lparr>printed = decode_report msg doc pos lineno colno, requests = [url],
      outcome = SysExit (- 1)\<rparr>"
  by (auto simp: open_and_load_def malformed_def finish_def json_error_eq
      split: http_result.splits)

lemma open_and_load_answered:
  "answered env url obj \<Longrightarrow>
   open_and_load env url body =
     finish [url] (try_common env obj (body obj (UrlRequest url)))"
  by (auto simp: open_and_load_def answered_def split: http_result.splits)

lemma passing_lat_rejected:
  "flt_lt lat (Finite (- 80)) \<or> flt_gt lat (Finite 80) \<Longrightarrow>
   passing env lat lon =
     \<lparr>printed = [Line Red False ''Latitude must be number between -80.0 and 80.0''],
      requests = [], outcome = SysExit (- 1)\<rparr>"
  by (simp add: passing_def finish_def py_exit_def)

lemma passing_lon_rejected:
  "\<not> (flt_lt lat (Finite (- 80)) \<or> flt_gt lat (Finite 80)) \<Longrightarrow>
   flt_lt lon (Finite (- 180)) \<or> flt_gt lon (Finite 180) \<Longrightarrow>
   passing env lat lon =
     \<lparr>printed = [Line Red False ''Longitude must be number between -180.0 and 180.0''],
      requests = [], outcome = SysExit (- 1)\<rparr>"
  by (simp add: passing_def finish_def py_exit_def)

lemma passing_accepted:
  "coords_accepted lat lon \<Longrightarrow>
   passing env lat lon = open_and_load env (passing_request lat lon) (passing_body env)"
  by (simp add: passing_def coords_accepted_def)

lemma passing_rejected:
  "\<not> coords_accepted lat lon \<Longrightarrow>
   requests (passing env lat lon) = [] \<and> outcome (passing env lat lon) = SysExit (- 1)"
  by (auto simp: passing_def coords_accepted_def finish_def py_exit_def)

lemma coords_accepted_iff:
  "coords_accepted lat lon \<longleftrightarrow>
     (lat = NaN \<or> lat \<in> Finite ` {- 80 .. 80}) \<and> (lon = NaN \<or> lon \<in> Finite ` {- 180 .. 180})"
  by (cases lat; cases lon) (auto simp: coords_accepted_def flt_gt_def)

section \<open>The range checks of passing\<close>

text \<open>
  The checks turn away exactly the coordinates that compare below or above the bounds,
  so they let NaN through, which compares with nothing.
\<close>

lemma passing_out_of_range:
  "lat \<noteq> NaN \<Longrightarrow> lon \<noteq> NaN \<Longrightarrow>
   \<not> (lat \<in> Finite ` {- 80 .. 80} \<and> lon \<in> Finite ` {- 180 .. 180}) \<Longrightarrow>
   requests (passing env lat lon) = [] \<and> outcome (passing env lat lon) = SysExit (- 1)
   \<and> (printed (passing env lat lon) =
          [Line Red False ''Latitude must be number between -80.0 and 80.0'']
        \<or> printed (passing env lat lon) =
          [Line Red False ''Longitude must be number between -180.0 and 180.0''])"
proof -
  assume "lat \<noteq> NaN" "lon \<noteq> NaN"
    and "\<not> (lat \<in> Finite ` {- 80 .. 80} \<and> lon \<in> Finite ` {- 180 .. 180})"
  then have "\<not> coords_accepted lat lon"
    by (simp add: coords_accepted_iff)
  then show ?thesis
    by (auto simp: passing_def coords_accepted_def finish_def py_exit_def)
qed

lemma passing_in_range:
  "- 80 \<le> a \<Longrightarrow> a \<le> 80 \<Longrightarrow> - 180 \<le> b \<Longrightarrow> b \<le> 180 \<Longrightarrow>
   requests (passing env (Finite a) (Finite b)) = [passing_request (Finite a) (Finite b)]"
  by (simp add: passing_accepted coords_accepted_iff requests_open_and_load)

text \<open>
  Claim C1, at the input where the code departs from it: a latitude outside the range
  from -80 to 80 must lead to no request, a message and a failing exit. The latitude
  NaN (the command line \<^verbatim>\<open>pass --lat nan\<close>) is in no range, yet both comparisons of the
  check are false on it and the request is sent.
\<close>

theorem passing_nan_latitude:
  "NaN \<notin> Finite ` {- 80 .. 80}
   \<and> requests (passing env NaN (Finite 0)) = [passing_request NaN (Finite 0)]"
  by (auto simp: passing_accepted coords_accepted_iff requests_open_and_load)

section \<open>One request for each call\<close>

text \<open>
  Claim C8 as it is written fails: the operations catch \<^verbatim>\<open>URLError\<close> only, and only
  around \<^verbatim>\<open>urlopen\<close>. A transport failure that comes as an exception of another class
  (the server closing the connection before it answers, which \<^verbatim>\<open>urlopen\<close> passes on
  as \<^verbatim>\<open>RemoteDisconnected\<close>, or a failure inside \<^verbatim>\<open>response.read()\<close>) leaves the
  operation: nothing is printed and the process ends with the interpreter's code 1.
\<close>

theorem transport_exception_escapes:
  "location
     (canned (HttpRaises (Exn (OtherError ''RemoteDisconnected'')
                ''Remote end closed connection without response''))
        (Parsed JNull)) =
     \<lparr>printed = [], requests = [location_request],
      outcome = Raise (Exn (OtherError ''RemoteDisconnected'')
                  ''Remote end closed connection without response'')\<rparr>
   \<and> main
       (canned (HttpRaises (Exn (OtherError ''RemoteDisconnected'')
                  ''Remote end closed connection without response''))
          (Parsed JNull)) Loc [] = 1"
  by (simp add: main_def run_command_def make_loc_def iss_location_def location_def
      open_and_load_def canned_def finish_def exit_code_def)

text \<open>
  Claim C8, amended: each of location, passing and people sends at most one request,
  exactly one when the arguments pass the checks; when the request fails with an
  \<^verbatim>\<open>URLError\<close> the reason is printed, the operation leaves with -1 and nothing more
  is sent.
\<close>

theorem single_request:
  "requests (location env) = [location_request]
   \<and> requests (people env) = [people_request]
   \<and> length (requests (passing env lat lon)) \<le> 1
   \<and> (coords_accepted lat lon \<longrightarrow> requests (passing env lat lon) = [passing_request lat lon])
   \<and> (urlopen env location_request = URLError reason \<longrightarrow>
        location env =
          \<lparr>printed = [Line Red False reason], requests = [location_request],
           outcome = SysExit (- 1)\<rparr>)
   \<and> (urlopen env people_request = URLError reason \<longrightarrow>
        people env =
          \<lparr>printed = [Line Red False reason], requests = [people_request],
           outcome = SysExit (- 1)\<rparr>)
   \<and> (coords_accepted lat lon \<and> urlopen env (passing_request lat lon) = URLError reason \<longrightarrow>
        passing env lat lon =
          \<lparr>printed = [Line Red False reason], requests = [passing_request lat lon],
           outcome = SysExit (- 1)\<rparr>)"
proof -
  have "length (requests (passing env lat lon)) \<le> 1"
    by (cases "coords_accepted lat lon")
      (simp_all add: passing_accepted passing_rejected requests_open_and_load)
  then show ?thesis
    by (simp add: location_def people_def passing_accepted requests_open_and_load
        open_and_load_URLError)
qed

theorem single_request_witness:
  "coords_accepted (Finite 45) (Finite 10)
   \<and> passing (canned (URLError ''timed out'') (Parsed JNull)) (Finite 45) (Finite 10) =
       \<lparr>printed = [Line Red False ''timed out''],
        requests = [passing_request (Finite 45) (Finite 10)], outcome = SysExit (- 1)\<rparr>
   \<and> location (canned (URLError ''timed out'') (Parsed JNull)) =
       \<lparr>printed = [Line Red False ''timed out''], requests = [location_request],
        outcome = SysExit (- 1)\<rparr>
   \<and> people (canned (URLError ''timed out'') (Parsed JNull)) =
       \<lparr>printed = [Line Red False ''timed out''], requests = [people_request],
        outcome = SysExit (- 1)\<rparr>"
  using single_request [of "canned (URLError ''timed out'') (Parsed JNull)"
      "Finite 45" "Finite 10" "''timed out''"]
  by (simp add: canned_def coords_accepted_def flt_gt_def)

section \<open>The instance is not read\<close>

text \<open>
  Claim C10: the constructor stores the latitude as a tuple of one element and the
  longitude as it is, and no operation reads either: called on instances built from
  any two pairs of arguments, an operation with the same arguments in the same
  environment gives the same lines, requests and outcome.
\<close>

theorem instance_never_read:
  "latitude (ISSSpaceStation a b) = [a]
   \<and> longitude (ISSSpaceStation a b) = b
   \<and> iss_location env (ISSSpaceStation a b) = iss_location env (ISSSpaceStation c d)
   \<and> iss_passing env (ISSSpaceStation a b) lat lon = iss_passing env (ISSSpaceStation c d) lat lon
   \<and> iss_people env (ISSSpaceStation a b) = iss_people env (ISSSpaceStation c d)"
  by (simp add: ISSSpaceStation_def iss_location_def iss_passing_def iss_people_def)

section \<open>The location operation\<close>

lemma location_answered:
  "answered env location_request obj \<Longrightarrow>
   location env = finish [location_request]
     (try_common env obj (location_body env obj (UrlRequest location_request)))"
  by (simp add: location_def open_and_load_answered)

text \<open>
  Claim C3: on a response whose message is "success", location reads the timestamp
  under the key \<^verbatim>\<open>timestampss\<close>, has the local clock convert it, and prints the
  converted time with the latitude and the longitude found under \<^verbatim>\<open>iss_position\<close>.
\<close>

theorem location_success:
  assumes "answered env location_request obj"
    and "message_is env obj ''success''"
    and "bnd (subscript env obj ''timestampss'') (py_int env) = Inr ts"
    and "fromtimestamp env ts = Inr time"
    and "subscript env obj ''iss_position'' = Inr pos"
    and "subscript env pos ''latitude'' = Inr lat"
    and "subscript env pos ''longitude'' = Inr lon"
  shows "location env =
     \<lparr>printed =
        [Line BrightWhite True (nl @ ''The ISS current location''),
         Line Green False (nl @ ''Time:      '' @ time),
         Line Green False (''Latitude:  '' @ py_str env lat),
         Line Green False (''Longitude: '' @ py_str env lon)],
      requests = [location_request], outcome = Ok ()\<rparr>"
  using assms
  by (simp add: location_answered location_body_def message_is_def finish_def)

theorem location_success_witness:
  "location (canned (Body ''body'') (Parsed sample_location)) =
     \<lparr>printed =
        [Line BrightWhite True (nl @ ''The ISS current location''),
         Line Green False (nl @ ''Time:      2023-07-22 04:26:40''),
         Line Green False ''Latitude:  10.1'',
         Line Green False ''Longitude: -20.2''],
      requests = [location_request], outcome = Ok ()\<rparr>"
  using location_success [where env = "canned (Body ''body'') (Parsed sample_location)"
      and obj = sample_location and ts = 1690000000 and time = "''2023-07-22 04:26:40''"
      and pos = "JDict [(''latitude'', JStr ''10.1''), (''longitude'', JStr ''-20.2'')]"
      and lat = "JStr ''10.1''" and lon = "JStr ''-20.2''"]
  by (simp add: canned_def answered_def message_is_def subscript_def sample_location_def
      py_int_def sample_clock_def py_str_def)

text \<open>
  The key is taken as it is written: a response that has no \<^verbatim>\<open>timestampss\<close>, whatever
  else it has, ends in the report of a \<^verbatim>\<open>KeyError\<close>.
\<close>

lemma location_missing_timestampss:
  assumes "answered env location_request (JDict kvs)"
    and "message_is env (JDict kvs) ''success''"
    and "map_of kvs ''timestampss'' = None"
  shows "location env =
     \<lparr>printed = [common_line env (Exn KeyError (py_repr env (JStr ''timestampss''))) (JDict kvs)],
      requests = [location_request], outcome = SysExit (- 1)\<rparr>"
  using assms
  by (simp add: location_answered location_body_def message_is_def finish_def
      try_common_caught caught_def subscript_def)

section \<open>A body that is no JSON\<close>

text \<open>
  Claim C4 as it is written fails, twice. A body whose bytes are no text makes the
  decoder raise \<^verbatim>\<open>UnicodeDecodeError\<close>, which is no \<^verbatim>\<open>JSONDecodeError\<close>: nothing is
  printed and the exception leaves the operation. And on a \<^verbatim>\<open>JSONDecodeError\<close> the
  position, the line and the column are ints handed to \<^verbatim>\<open>click.style\<close>: where click
  joins them as they are, the report stops after its second line with a \<^verbatim>\<open>TypeError\<close>
  that nothing catches.
\<close>

theorem decode_report_incomplete:
  "location
     (canned (Body ''body'')
        (LoadsRaises (Exn (OtherError ''UnicodeDecodeError'') ''invalid start byte''))) =
     \<lparr>printed = [], requests = [location_request],
      outcome = Raise (Exn (OtherError ''UnicodeDecodeError'') ''invalid start byte'')\<rparr>
   \<and> location
       ((canned (Body ''{bad'') (JSONDecodeError ''Expecting property name'' ''{bad'' 1 1 2))
          \<lparr>style_converts := False\<rparr>) =
     \<lparr>printed = [Line Red False ''Expecting property name'', Line Red False ''{bad''],
      requests = [location_request],
      outcome = Raise (Exn TypeError ''<message>'')\<rparr>"
  by (simp add: location_def open_and_load_def canned_def finish_def json_error_def
      echo_int_def)

text \<open>
  Claim C4, amended: when the decoder raises \<^verbatim>\<open>JSONDecodeError\<close> on the body and
  \<^verbatim>\<open>click.style\<close> turns a text that is no string into one, the operation prints the
  error's message, the text that failed to parse, the position, the line and the
  column, all five, and leaves with -1.
\<close>

theorem decode_error_reported:
  assumes "style_converts env"
  shows "(malformed env location_request msg doc pos lineno colno \<longrightarrow>
        location env =
          \<lparr>printed = decode_report msg doc pos lineno colno,
           requests = [location_request], outcome = SysExit (- 1)\<rparr>)
   \<and> (malformed env people_request msg doc pos lineno colno \<longrightarrow>
        people env =
          \<lparr>printed = decode_report msg doc pos lineno colno,
           requests = [people_request], outcome = SysExit (- 1)\<rparr>)
   \<and> (coords_accepted lat lon
        \<and> malformed env (passing_request lat lon) msg doc pos lineno colno \<longrightarrow>
        passing env lat lon =
          \<lparr>printed = decode_report msg doc pos lineno colno,
           requests = [passing_request lat lon], outcome = SysExit (- 1)\<rparr>)"
  using assms
  by (simp add: location_def people_def passing_accepted open_and_load_malformed)

theorem decode_error_reported_witness:
  "location (canned (Body ''{bad'') (JSONDecodeError ''Expecting property name'' ''{bad'' 1 1 2)) =
     \<lparr>printed =
        [Line Red False ''Expecting property name'', Line Red False ''{bad'',
         Line Red False ''1'', Line Red False ''1'', Line Red False ''2''],
      requests = [location_request], outcome = SysExit (- 1)\<rparr>
   \<and> people (canned (Body ''{bad'') (JSONDecodeError ''Expecting property name'' ''{bad'' 1 1 2)) =
     \<lparr>printed =
        [Line Red False ''Expecting property name'', Line Red False ''{bad'',
         Line Red False ''1'', Line Red False ''1'', Line Red False ''2''],
      requests = [people_request], outcome = SysExit (- 1)\<rparr>
   \<and> passing (canned (Body ''{bad'') (JSONDecodeError ''Expecting property name'' ''{bad'' 1 1 2))
       (Finite 45) (Finite 10) =
     \<lparr>printed =
        [Line Red False ''Expecting property name'', Line Red False ''{bad'',
         Line Red False ''1'', Line Red False ''1'', Line Red False ''2''],
      requests = [passing_request (Finite 45) (Finite 10)], outcome = SysExit (- 1)\<rparr>"
  using decode_error_reported
    [where env = "canned (Body ''{bad'') (JSONDecodeError ''Expecting property name'' ''{bad'' 1 1 2)"
      and msg = "''Expecting property name''" and doc = "''{bad''" and pos = 1
      and lineno = 1 and colno = 2 and lat = "Finite 45" and lon = "Finite 10"]
  apply (simp add: canned_def malformed_def decode_report_def str_int_def
      coords_accepted_def flt_gt_def)
  apply code_simp
  done

text \<open>
  Where \<^verbatim>\<open>click.style\<close> joins the int as it is, the report stops after its second line
  with a \<^verbatim>\<open>TypeError\<close> that nothing catches.
\<close>

lemma decode_report_without_conversion:
  assumes "\<not> style_converts env"
    and "malformed env location_request msg doc pos lineno colno"
  shows "location env =
     \<lparr>printed = [Line Red False msg, Line Red False doc], requests = [location_request],
      outcome = Raise (Exn TypeError (fault_msg env JoinNonStr))\<rparr>"
  using assms
  by (auto simp: location_def open_and_load_def malformed_def finish_def json_error_def
      echo_int_def split: http_result.splits)

section \<open>A message that is not "success"\<close>

lemma message_error_failure:
  "subscript env obj ''message'' = Inr (JStr ''failure'') \<Longrightarrow>
   subscript env obj ''reason'' = Inr r \<Longrightarrow>
   message_error env obj url = ([Line Red False (py_str env r)], SysExit (- 1))"
  by (simp add: message_error_def py_exit_def)

lemma message_error_unknown:
  "subscript env obj ''message'' = Inr m \<Longrightarrow> m \<noteq> JStr ''failure'' \<Longrightarrow>
   message_error env obj (UrlRequest r) =
     ([], Raise (Exn TypeError (fault_msg env StrPlusRequest)))"
  by (simp add: message_error_def str_add_def)

text \<open>
  With the message "failure" the three operations print the reason, and nothing else,
  and leave with -1.
\<close>

lemma failure_reason_reported:
  assumes "command_valid c"
    and "answered env (request_of c) obj"
    and "message_is env obj ''failure''"
    and "subscript env obj ''reason'' = Inr r"
  shows "run_command env c =
     \<lparr>printed = [Line Red False (py_str env r)], requests = [request_of c],
      outcome = SysExit (- 1)\<rparr>"
  using assms
  by (cases c)
    (simp_all add: run_command_def make_loc_def make_passing_def make_people_def
      iss_location_def iss_passing_def iss_people_def location_def people_def
      passing_accepted command_valid_def request_of_def open_and_load_answered
      location_body_def passing_body_def people_body_def message_is_def
      message_error_failure finish_def)

text \<open>
  With any other message the line "Unknown error" is never printed: the text is added
  to the \<^verbatim>\<open>Request\<close> object, which raises \<^verbatim>\<open>TypeError\<close> inside the \<^verbatim>\<open>try\<close>, and the
  report is that of \<^verbatim>\<open>common_error\<close>.
\<close>

lemma unknown_message_reported_as_common:
  assumes "command_valid c"
    and "answered env (request_of c) obj"
    and "subscript env obj ''message'' = Inr m"
    and "m \<noteq> JStr ''success''" and "m \<noteq> JStr ''failure''"
  shows "run_command env c =
     \<lparr>printed = [common_line env (Exn TypeError (fault_msg env StrPlusRequest)) obj],
      requests = [request_of c], outcome = SysExit (- 1)\<rparr>"
  using assms
  by (cases c)
    (simp_all add: run_command_def make_loc_def make_passing_def make_people_def
      iss_location_def iss_passing_def iss_people_def location_def people_def
      passing_accepted command_valid_def request_of_def open_and_load_answered
      location_body_def passing_body_def people_body_def
      message_error_unknown finish_def try_common_caught caught_def)

text \<open>
  Claim C5, at the input where the code departs from it: for a message that is
  neither "success" nor "failure" the claim has a line "Unknown error" with the URL and
  the parsed response. On the response \<^verbatim>\<open>{"message": "error"}\<close> location prints the
  report of a common error of class \<^verbatim>\<open>TypeError\<close> instead, and leaves with -1.
\<close>

theorem unknown_message_sample:
  "location (canned (Body ''body'') (Parsed (JDict [(''message'', JStr ''error'')]))) =
     \<lparr>printed =
        [Line Red False
           (''Common error.'' @ nl @ ''Error type: TypeError'' @ nl @ ''Error: <message>''
              @ nl @ ''Data: <repr>'')],
      requests = [location_request], outcome = SysExit (- 1)\<rparr>"
  by (simp add: location_def open_and_load_def canned_def finish_def location_body_def
      subscript_def message_error_def str_add_def try_common_caught caught_def
      common_line_def common_text_def py_str_def)

section \<open>Commands\<close>

lemma run_command_valid:
  "command_valid c \<Longrightarrow>
   run_command env c = open_and_load env (request_of c) (body_of env c)"
  by (cases c)
    (simp_all add: run_command_def make_loc_def make_passing_def make_people_def
      iss_location_def iss_passing_def iss_people_def location_def people_def
      passing_accepted command_valid_def request_of_def body_of_def)

lemma run_command_rejected:
  "\<not> command_valid c \<Longrightarrow>
   requests (run_command env c) = [] \<and> outcome (run_command env c) = SysExit (- 1)"
  by (cases c)
    (simp_all add: run_command_def make_passing_def iss_passing_def command_valid_def
      passing_rejected)

lemma cli_stops:
  "outcome (run_command env c) \<noteq> Ok () \<Longrightarrow> cli env c cs = run_command env c"
  by (cases cs) (simp_all add: Let_def)

lemma cli_all_return:
  "\<forall>d \<in> set (c # cs). outcome (run_command env d) = Ok () \<Longrightarrow>
   outcome (cli env c cs) = Ok ()"
  by (induction cs arbitrary: c) (simp_all add: Let_def)

section \<open>Fields that are missing or of another type\<close>

text \<open>
  Claim C7 as it is written fails: the string \<^verbatim>\<open>"abc"\<close> where the timestamp should be a
  number makes \<^verbatim>\<open>int\<close> raise \<^verbatim>\<open>ValueError\<close>, which the \<^verbatim>\<open>except\<close> clause does not
  name. The operation prints nothing and the exception leaves it.
\<close>

theorem wrong_type_escapes:
  "location
     (canned (Body ''body'')
        (Parsed (JDict [(''message'', JStr ''success''), (''timestampss'', JStr ''abc''),
                        (''iss_position'',
                           JDict [(''latitude'', JStr ''10.1''),
                                  (''longitude'', JStr ''-20.2'')])]))) =
     \<lparr>printed = [], requests = [location_request],
      outcome = Raise (Exn ValueError ''<message>'')\<rparr>"
  apply (simp add: location_def open_and_load_def canned_def finish_def location_body_def
      subscript_def py_int_def try_common_escapes caught_def)
  apply code_simp
  done

text \<open>
  Claim C7, amended: when reading the parsed response raises \<^verbatim>\<open>KeyError\<close> (an expected
  key is absent), \<^verbatim>\<open>TypeError\<close> (a value that cannot be indexed, or that \<^verbatim>\<open>int\<close> does
  not take) or another class that the \<^verbatim>\<open>except\<close> clause names, the operation adds one
  line to what it has printed, with the name of the class, the text of the exception
  and \<^verbatim>\<open>str\<close> of the whole parsed object, and leaves with -1.
\<close>

theorem schema_error_reported:
  assumes "command_valid c"
    and "answered env (request_of c) obj"
    and "body_of env c obj (UrlRequest (request_of c)) = (ls, Raise e)"
    and "caught (exn_cls e)"
  shows "run_command env c =
     \<lparr>printed =
        ls @ [Line Red False
                (''Common error.'' @ nl @ ''Error type: '' @ class_name (exn_cls e)
                   @ nl @ ''Error: '' @ exn_msg e @ nl @ ''Data: '' @ py_str env obj)],
      requests = [request_of c], outcome = SysExit (- 1)\<rparr>"
  using assms
  by (simp add: run_command_valid open_and_load_answered try_common_caught finish_def
      common_line_def common_text_def)

theorem schema_error_reported_witness:
  "run_command
     (canned (Body ''body'')
        (Parsed (JDict [(''message'', JStr ''success''), (''timestamp'', JInt 1690000000)])))
     Loc =
     \<lparr>printed =
        [Line Red False
           (''Common error.'' @ nl @ ''Error type: KeyError'' @ nl @ ''Error: <repr>''
              @ nl @ ''Data: <repr>'')],
      requests = [location_request], outcome = SysExit (- 1)\<rparr>"
  using schema_error_reported
    [where c = Loc
      and env = "canned (Body ''body'')
        (Parsed (JDict [(''message'', JStr ''success''), (''timestamp'', JInt 1690000000)]))"
      and obj = "JDict [(''message'', JStr ''success''), (''timestamp'', JInt 1690000000)]"
      and ls = "[]" and e = "Exn KeyError ''<repr>''"]
  by (simp add: command_valid_def request_of_def body_of_def canned_def answered_def
      location_body_def subscript_def caught_def py_str_def)

text \<open>The two exceptions of the reads themselves that the clause names.\<close>

lemma subscript_raises:
  "subscript env v k = Inl e \<Longrightarrow> exn_cls e = KeyError \<or> exn_cls e = TypeError"
  by (auto simp: subscript_def split: json.splits option.splits)

lemma subscript_absent_key:
  "map_of kvs k = None \<Longrightarrow>
   subscript env (JDict kvs) k = Inl (Exn KeyError (py_repr env (JStr k)))"
  by (simp add: subscript_def)

lemma py_int_raises:
  "py_int env v = Inl e \<Longrightarrow>
   caught (exn_cls e) \<longleftrightarrow> (v = JNull \<or> (\<exists>xs. v = JList xs) \<or> (\<exists>kvs. v = JDict kvs))"
  by (auto simp: py_int_def caught_def split: json.splits pyfloat.splits option.splits)

section \<open>Exit codes\<close>

text \<open>
  Claim C6 as it is written fails: a passing response whose \<^verbatim>\<open>passes\<close> is the string
  \<^verbatim>\<open>"two"\<close> has a field of the wrong type, and the process leaves with the
  interpreter's code 1 for an exception that nothing caught, not with -1.
\<close>

theorem schema_error_exit_one:
  "main
     (canned (Body ''body'')
        (Parsed (JDict [(''message'', JStr ''success''),
                        (''request'',
                           JDict [(''latitude'', JInt 45), (''longitude'', JInt 10),
                                  (''passes'', JStr ''two'')]),
                        (''response'', JList sample_passes)])))
     (Pass (Finite 45) (Finite 10)) [] = 1"
  apply (simp add: main_def run_command_def make_passing_def iss_passing_def
      passing_accepted coords_accepted_iff open_and_load_def canned_def finish_def
      passing_body_def subscript_def py_int_def try_common_escapes caught_def exit_code_def)
  apply code_simp
  done

text \<open>
  Claim C6, amended: the exit code is 0 when every command returns. It is -1 when the
  coordinates fail the range checks, when the request fails with an URLError, when the
  decoder raises \<^verbatim>\<open>JSONDecodeError\<close> (and click turns the ints of the report into
  strings), and when reading the parsed response raises an exception of a class that
  the \<^verbatim>\<open>except\<close> clause names (\<^verbatim>\<open>KeyError\<close>, \<^verbatim>\<open>TypeError\<close>, \<^verbatim>\<open>RuntimeError\<close>,
  \<^verbatim>\<open>NameError\<close>). What happens on an exception of another class is left out.
\<close>

theorem exit_codes:
  "((\<forall>d \<in> set (c # cs). outcome (run_command env d) = Ok ()) \<longrightarrow> main env c cs = 0)
   \<and> (\<not> command_valid c \<longrightarrow> main env c cs = - 1)
   \<and> (command_valid c \<and> urlopen env (request_of c) = URLError reason \<longrightarrow>
        main env c cs = - 1)
   \<and> (command_valid c \<and> style_converts env
        \<and> malformed env (request_of c) msg doc pos lineno colno \<longrightarrow>
        main env c cs = - 1)
   \<and> (command_valid c \<and> answered env (request_of c) obj
        \<and> body_of env c obj (UrlRequest (request_of c)) = (ls, Raise e)
        \<and> caught (exn_cls e) \<longrightarrow>
        main env c cs = - 1)"
proof (intro conjI impI)
  assume "\<forall>d \<in> set (c # cs). outcome (run_command env d) = Ok ()"
  then show "main env c cs = 0"
    by (simp only: main_def cli_all_return) (simp add: exit_code_def)
next
  assume "\<not> command_valid c"
  then have "outcome (run_command env c) = SysExit (- 1)"
    by (simp add: run_command_rejected)
  then show "main env c cs = - 1"
    by (simp add: main_def cli_stops exit_code_def)
next
  assume "command_valid c \<and> urlopen env (request_of c) = URLError reason"
  then have "outcome (run_command env c) = SysExit (- 1)"
    by (simp add: run_command_valid open_and_load_URLError)
  then show "main env c cs = - 1"
    by (simp add: main_def cli_stops exit_code_def)
next
  assume "command_valid c \<and> style_converts env
    \<and> malformed env (request_of c) msg doc pos lineno colno"
  then have "outcome (run_command env c) = SysExit (- 1)"
    using open_and_load_malformed [of env "request_of c" msg doc pos lineno colno "body_of env c"]
    by (simp add: run_command_valid)
  then show "main env c cs = - 1"
    by (simp add: main_def cli_stops exit_code_def)
next
  assume "command_valid c \<and> answered env (request_of c) obj
    \<and> body_of env c obj (UrlRequest (request_of c)) = (ls, Raise e)
    \<and> caught (exn_cls e)"
  then have "outcome (run_command env c) = SysExit (- 1)"
    using open_and_load_answered [of env "request_of c" obj "body_of env c"]
    by (simp add: run_command_valid try_common_caught finish_def)
  then show "main env c cs = - 1"
    by (simp add: main_def cli_stops exit_code_def)
qed

theorem exit_codes_witness:
  "main (canned (Body ''body'') (Parsed sample_location)) Loc [] = 0
   \<and> main (canned (Body ''body'') (Parsed sample_location)) (Pass (Finite 81) (Finite 0)) [] = - 1
   \<and> main (canned (URLError ''timed out'') (Parsed JNull)) People [] = - 1
   \<and> main (canned (Body ''{bad'') (JSONDecodeError ''Expecting property name'' ''{bad'' 1 1 2))
        Loc [People] = - 1
   \<and> main (canned (Body ''body'') (Parsed (JDict [(''message'', JStr ''success'')]))) People [] = - 1"
proof -
  have ok: "outcome (run_command (canned (Body ''body'') (Parsed sample_location)) Loc) = Ok ()"
    by (simp add: run_command_def make_loc_def iss_location_def location_def
        open_and_load_def canned_def finish_def location_body_def subscript_def
        sample_location_def py_int_def sample_clock_def)
  show ?thesis
    using ok
      exit_codes [where env = "canned (Body ''body'') (Parsed sample_location)"
        and c = Loc and cs = "[]"]
      exit_codes [where env = "canned (Body ''body'') (Parsed sample_location)"
        and c = "Pass (Finite 81) (Finite 0)" and cs = "[]"]
      exit_codes [where env = "canned (URLError ''timed out'') (Parsed JNull)"
        and c = People and cs = "[]" and reason = "''timed out''"]
      exit_codes [where env = "canned (Body ''{bad'')
          (JSONDecodeError ''Expecting property name'' ''{bad'' 1 1 2)"
        and c = Loc and cs = "[People]" and msg = "''Expecting property name''"
        and doc = "''{bad''" and pos = 1 and lineno = 1 and colno = 2]
      exit_codes [where env = "canned (Body ''body'')
          (Parsed (JDict [(''message'', JStr ''success'')]))"
        and c = People and cs = "[]" and obj = "JDict [(''message'', JStr ''success'')]"
        and ls = "[]" and e = "Exn KeyError ''<repr>''"]
    by (simp add: command_valid_def coords_accepted_def flt_gt_def request_of_def
        body_of_def canned_def malformed_def answered_def people_body_def subscript_def
        caught_def)
qed

section \<open>The rows of the tables\<close>

lemma entries_rows:
  assumes "map f entries = map Some rows"
  shows "length rows = length entries"
    and "\<And>x. x < length entries \<Longrightarrow> f (entries ! x) = Some (rows ! x)"
proof -
  show len: "length rows = length entries"
    using assms map_eq_imp_length_eq by fastforce
  fix x
  assume x: "x < length entries"
  then have "map f entries ! x = map Some rows ! x"
    using assms by simp
  with x len show "f (entries ! x) = Some (rows ! x)"
    by simp
qed

lemma pass_row_entry:
  assumes "subscript env obj ''response'' = Inr (JList entries)"
    and "x < length entries"
    and "pass_entry env (entries ! x) = Some row"
  shows "pass_row env obj x = ([pass_line env row], Ok ())"
  using assms
  by (auto simp: pass_row_def pass_entry_def index_at_def pass_line_def echo_def bnd_def
      split: sum.splits)

lemma pass_row_beyond:
  assumes "subscript env obj ''response'' = Inr (JList entries)"
    and "length entries \<le> x"
  shows "pass_row env obj x =
     ([], Raise (Exn IndexError (fault_msg env (IndexRange (JList entries) x))))"
  using assms
  by (simp add: pass_row_def index_at_def)

lemma people_row_entry:
  assumes "subscript env obj ''people'' = Inr (JList crew)"
    and "i < length crew"
    and "people_entry env (crew ! i) = Some row"
  shows "people_row env obj i = ([people_line env row], Ok ())"
  using assms
  by (auto simp: people_row_def people_entry_def index_at_def people_line_def echo_def
      split: sum.splits)

lemma people_row_beyond:
  assumes "subscript env obj ''people'' = Inr (JList crew)"
    and "length crew \<le> i"
  shows "people_row env obj i =
     ([], Raise (Exn IndexError (fault_msg env (IndexRange (JList crew) i))))"
  using assms
  by (simp add: people_row_def index_at_def)

lemma map_nth_rows:
  "length rows = n \<Longrightarrow> map (\<lambda>x. g (rows ! x)) [0..<n] = map g rows"
  by (rule nth_equalityI) simp_all

lemma upt_split_at:
  "k < m \<Longrightarrow> [0..<m] = [0..<k] @ k # [Suc k..<m]"
  using upt_add_eq_append [of 0 k "m - k"] by (simp add: upt_conv_Cons)

lemma rows_complete:
  assumes "\<And>x. x < n \<Longrightarrow> f x = ([g (rows ! x)], Ok ())"
    and "length rows = n"
  shows "run_all (map f [0..<n]) = (map g rows, Ok ())"
proof -
  have "run_all (map f [0..<n]) = (map (\<lambda>x. g (rows ! x)) [0..<n], Ok ())"
    using assms(1) by (intro run_all_rows) simp
  then show ?thesis
    by (simp only: map_nth_rows [OF assms(2)])
qed

lemma rows_cut_short:
  assumes "\<And>x. x < k \<Longrightarrow> f x = ([g (rows ! x)], Ok ())"
    and "length rows = k"
    and "f k = ([], Raise e)"
    and "int k < n"
  shows "run_all (map f (py_range n)) = (map g rows, Raise e)"
proof -
  from assms(4) have "k < nat n" by simp
  then have split: "py_range n = [0..<k] @ k # [Suc k..<nat n]"
    unfolding py_range_def by (rule upt_split_at)
  have "run_all (map f ([0..<k] @ k # [Suc k..<nat n])) =
      (map (\<lambda>x. g (rows ! x)) [0..<k], Raise e)"
    using assms(1,3) by (intro run_all_rows_stop) simp_all
  then show ?thesis
    by (simp only: split map_nth_rows [OF assms(2)])
qed

lemma pass_rows_complete:
  assumes "subscript env obj ''response'' = Inr (JList entries)"
    and "map (pass_entry env) entries = map Some rows"
  shows "run_all (map (pass_row env obj) (py_range (int (length entries)))) =
     (map (pass_line env) rows, Ok ())"
proof -
  note er = entries_rows [OF assms(2)]
  have "run_all (map (pass_row env obj) [0..<length entries]) =
      (map (pass_line env) rows, Ok ())"
  proof (rule rows_complete)
    fix x
    assume "x < length entries"
    then show "pass_row env obj x = ([pass_line env (rows ! x)], Ok ())"
      using assms(1) er(2) by (intro pass_row_entry)
  next
    show "length rows = length entries" by (rule er(1))
  qed
  then show ?thesis by (simp only: py_range_def nat_int)
qed

lemma pass_rows_cut_short:
  assumes "subscript env obj ''response'' = Inr (JList entries)"
    and "map (pass_entry env) entries = map Some rows"
    and "int (length entries) < n"
  shows "run_all (map (pass_row env obj) (py_range n)) =
     (map (pass_line env) rows,
      Raise (Exn IndexError (fault_msg env (IndexRange (JList entries) (length entries)))))"
proof (rule rows_cut_short [where k = "length entries"])
  note er = entries_rows [OF assms(2)]
  fix x
  assume "x < length entries"
  then show "pass_row env obj x = ([pass_line env (rows ! x)], Ok ())"
    using assms(1) er(2) by (intro pass_row_entry)
next
  show "length rows = length entries"
    by (rule entries_rows(1) [OF assms(2)])
next
  show "pass_row env obj (length entries) =
      ([], Raise (Exn IndexError (fault_msg env (IndexRange (JList entries) (length entries)))))"
    using assms(1) by (intro pass_row_beyond) simp_all
next
  show "int (length entries) < n" by (rule assms(3))
qed

lemma people_rows_complete:
  assumes "subscript env obj ''people'' = Inr (JList crew)"
    and "map (people_entry env) crew = map Some rows"
  shows "run_all (map (people_row env obj) (py_range (int (length crew)))) =
     (map (people_line env) rows, Ok ())"
proof -
  note er = entries_rows [OF assms(2)]
  have "run_all (map (people_row env obj) [0..<length crew]) =
      (map (people_line env) rows, Ok ())"
  proof (rule rows_complete)
    fix i
    assume "i < length crew"
    then show "people_row env obj i = ([people_line env (rows ! i)], Ok ())"
      using assms(1) er(2) by (intro people_row_entry)
  next
    show "length rows = length crew" by (rule er(1))
  qed
  then show ?thesis by (simp only: py_range_def nat_int)
qed

lemma people_rows_cut_short:
  assumes "subscript env obj ''people'' = Inr (JList crew)"
    and "map (people_entry env) crew = map Some rows"
    and "int (length crew) < n"
  shows "run_all (map (people_row env obj) (py_range n)) =
     (map (people_line env) rows,
      Raise (Exn IndexError (fault_msg env (IndexRange (JList crew) (length crew)))))"
proof (rule rows_cut_short [where k = "length crew"])
  note er = entries_rows [OF assms(2)]
  fix i
  assume "i < length crew"
  then show "people_row env obj i = ([people_line env (rows ! i)], Ok ())"
    using assms(1) er(2) by (intro people_row_entry)
next
  show "length rows = length crew"
    by (rule entries_rows(1) [OF assms(2)])
next
  show "people_row env obj (length crew) =
      ([], Raise (Exn IndexError (fault_msg env (IndexRange (JList crew) (length crew)))))"
    using assms(1) by (intro people_row_beyond) simp_all
next
  show "int (length crew) < n" by (rule assms(3))
qed

lemma passing_body_success:
  assumes "message_is env obj ''success''"
    and "subscript env obj ''request'' = Inr rq"
    and "subscript env rq ''latitude'' = Inr la"
    and "subscript env rq ''longitude'' = Inr lo"
    and "bnd (subscript env rq ''passes'') (py_int env) = Inr n"
    and "run_all (map (pass_row env obj) (py_range n)) = (ls, r)"
  shows "passing_body env obj url =
     cbind (pass_header env la lo n @ ls, r) (\<lambda>u. ([Line Green False dashes], Ok ()))"
  using assms
  by (cases r) (simp_all add: passing_body_def message_is_def pass_header_def)

lemma people_body_success:
  assumes "message_is env obj ''success''"
    and "bnd (subscript env obj ''number'') (py_int env) = Inr n"
    and "run_all (map (people_row env obj) (py_range n)) = (ls, r)"
  shows "people_body env obj url =
     cbind (people_header @ ls, r) (\<lambda>u. ([Line Green False dashes], Ok ()))"
  using assms
  by (cases r) (simp_all add: people_body_def message_is_def people_header_def)

section \<open>The tables of passes and people\<close>

text \<open>
  Claim C2: on a passing response with message "success", whose \<^verbatim>\<open>request.passes\<close> is
  the number of entries of its \<^verbatim>\<open>response\<close> array, passing prints after its header one
  row for each entry, in the order of the array, with the entry's duration and its rise
  time as the local clock converts it, then the closing line; and on a people response
  whose \<^verbatim>\<open>number\<close> is the number of entries of \<^verbatim>\<open>people\<close>, people prints one row for
  each entry, in order, with its name and its craft. (\<open>rows\<close> holds what the reads of
  each entry give.)
\<close>

theorem tables_rendered:
  "(coords_accepted lat lon
    \<and> answered env (passing_request lat lon) obj
    \<and> message_is env obj ''success''
    \<and> subscript env obj ''request'' = Inr rq
    \<and> subscript env rq ''latitude'' = Inr la
    \<and> subscript env rq ''longitude'' = Inr lo
    \<and> bnd (subscript env rq ''passes'') (py_int env) = Inr (int (length entries))
    \<and> subscript env obj ''response'' = Inr (JList entries)
    \<and> map (pass_entry env) entries = map Some rows
    \<longrightarrow> passing env lat lon =
          \<lparr>printed = pass_header env la lo (int (length entries))
               @ map (pass_line env) rows @ [Line Green False dashes],
           requests = [passing_request lat lon], outcome = Ok ()\<rparr>
        \<and> length rows = length entries)
   \<and> (answered env people_request obj'
       \<and> message_is env obj' ''success''
       \<and> bnd (subscript env obj' ''number'') (py_int env) = Inr (int (length crew))
       \<and> subscript env obj' ''people'' = Inr (JList crew)
       \<and> map (people_entry env) crew = map Some rows'
       \<longrightarrow> people env =
             \<lparr>printed = people_header @ map (people_line env) rows'
                  @ [Line Green False dashes],
              requests = [people_request], outcome = Ok ()\<rparr>
           \<and> length rows' = length crew)"
proof (intro conjI impI)
  assume h: "coords_accepted lat lon
    \<and> answered env (passing_request lat lon) obj
    \<and> message_is env obj ''success''
    \<and> subscript env obj ''request'' = Inr rq
    \<and> subscript env rq ''latitude'' = Inr la
    \<and> subscript env rq ''longitude'' = Inr lo
    \<and> bnd (subscript env rq ''passes'') (py_int env) = Inr (int (length entries))
    \<and> subscript env obj ''response'' = Inr (JList entries)
    \<and> map (pass_entry env) entries = map Some rows"
  then have loop: "run_all (map (pass_row env obj) (py_range (int (length entries)))) =
      (map (pass_line env) rows, Ok ())"
    by (intro pass_rows_complete) simp_all
  have "passing_body env obj (UrlRequest (passing_request lat lon)) =
      cbind (pass_header env la lo (int (length entries)) @ map (pass_line env) rows, Ok ())
        (\<lambda>u. ([Line Green False dashes], Ok ()))"
    using h loop by (intro passing_body_success [where rq = rq]) simp_all
  then show "passing env lat lon =
      \<lparr>printed = pass_header env la lo (int (length entries))
           @ map (pass_line env) rows @ [Line Green False dashes],
       requests = [passing_request lat lon], outcome = Ok ()\<rparr>"
    using h open_and_load_answered [of env "passing_request lat lon" obj "passing_body env"]
    by (simp add: passing_accepted finish_def)
  from h show "length rows = length entries"
    by (intro entries_rows(1) [where f = "pass_entry env"]) simp
next
  assume h: "answered env people_request obj'
    \<and> message_is env obj' ''success''
    \<and> bnd (subscript env obj' ''number'') (py_int env) = Inr (int (length crew))
    \<and> subscript env obj' ''people'' = Inr (JList crew)
    \<and> map (people_entry env) crew = map Some rows'"
  then have loop: "run_all (map (people_row env obj') (py_range (int (length crew)))) =
      (map (people_line env) rows', Ok ())"
    by (intro people_rows_complete) simp_all
  have "people_body env obj' (UrlRequest people_request) =
      cbind (people_header @ map (people_line env) rows', Ok ())
        (\<lambda>u. ([Line Green False dashes], Ok ()))"
    using h loop by (intro people_body_success) simp_all
  then show "people env =
      \<lparr>printed = people_header @ map (people_line env) rows' @ [Line Green False dashes],
       requests = [people_request], outcome = Ok ()\<rparr>"
    using h open_and_load_answered [of env people_request obj' "people_body env"]
    by (simp add: people_def finish_def)
  from h show "length rows' = length crew"
    by (intro entries_rows(1) [where f = "people_entry env"]) simp
qed

theorem tables_rendered_witness:
  "passing (canned (Body ''body'') (Parsed (sample_passing 2))) (Finite 45) (Finite 10) =
     \<lparr>printed =
        [Line BrightWhite True (nl @ ''The ISS will be overhead''),
         Line Green False (nl @ ''Latitude:  45''),
         Line Green False ''Longitude: 10'',
         Line Green False (''Passes: 2'' @ nl),
         Line Green False ''----------------------------------------------'',
         Line Green False ''| Duration             | Risetime            |'',
         Line Green False ''-----------------------+----------------------'',
         Line Green False ''|                  600 |  2023-07-22 04:26:40|'',
         Line Green False ''|                  540 |  2023-07-22 05:26:40|'',
         Line Green False ''----------------------------------------------''],
      requests = [passing_request (Finite 45) (Finite 10)], outcome = Ok ()\<rparr>
   \<and> people (canned (Body ''body'') (Parsed (sample_people 3))) =
     \<lparr>printed =
        [Line BrightWhite True (nl @ ''The people now on the Space'' @ nl),
         Line Green False ''----------------------------------------------'',
         Line Green False ''| Name                 | Craft               |'',
         Line Green False ''-----------------------+----------------------'',
         Line Green False ''|                  Ann |                  ISS|'',
         Line Green False ''|                   Bo |                  ISS|'',
         Line Green False ''|                   Cy |             Tiangong|'',
         Line Green False ''----------------------------------------------''],
      requests = [people_request], outcome = Ok ()\<rparr>"
proof -
  have pass_hyps:
    "coords_accepted (Finite 45) (Finite 10)
     \<and> answered (canned (Body ''body'') (Parsed (sample_passing 2)))
         (passing_request (Finite 45) (Finite 10)) (sample_passing 2)
     \<and> message_is (canned (Body ''body'') (Parsed (sample_passing 2))) (sample_passing 2) ''success''
     \<and> subscript (canned (Body ''body'') (Parsed (sample_passing 2))) (sample_passing 2) ''request'' =
         Inr (JDict [(''latitude'', JInt 45), (''longitude'', JInt 10), (''passes'', JInt 2)])
     \<and> subscript (canned (Body ''body'') (Parsed (sample_passing 2)))
         (JDict [(''latitude'', JInt 45), (''longitude'', JInt 10), (''passes'', JInt 2)])
         ''latitude'' = Inr (JInt 45)
     \<and> subscript (canned (Body ''body'') (Parsed (sample_passing 2)))
         (JDict [(''latitude'', JInt 45), (''longitude'', JInt 10), (''passes'', JInt 2)])
         ''longitude'' = Inr (JInt 10)
     \<and> bnd (subscript (canned (Body ''body'') (Parsed (sample_passing 2)))
            (JDict [(''latitude'', JInt 45), (''longitude'', JInt 10), (''passes'', JInt 2)])
            ''passes'')
         (py_int (canned (Body ''body'') (Parsed (sample_passing 2)))) =
         Inr (int (length sample_passes))
     \<and> subscript (canned (Body ''body'') (Parsed (sample_passing 2))) (sample_passing 2) ''response'' =
         Inr (JList sample_passes)
     \<and> map (pass_entry (canned (Body ''body'') (Parsed (sample_passing 2)))) sample_passes =
         map Some [(JInt 600, ''2023-07-22 04:26:40''), (JInt 540, ''2023-07-22 05:26:40'')]"
    by (simp add: coords_accepted_def flt_gt_def answered_def canned_def message_is_def
        subscript_def sample_passing_def sample_passes_def py_int_def pass_entry_def
        sample_clock_def)
  have people_hyps:
    "answered (canned (Body ''body'') (Parsed (sample_people 3))) people_request (sample_people 3)
     \<and> message_is (canned (Body ''body'') (Parsed (sample_people 3))) (sample_people 3) ''success''
     \<and> bnd (subscript (canned (Body ''body'') (Parsed (sample_people 3))) (sample_people 3) ''number'')
         (py_int (canned (Body ''body'') (Parsed (sample_people 3)))) =
         Inr (int (length sample_crew))
     \<and> subscript (canned (Body ''body'') (Parsed (sample_people 3))) (sample_people 3) ''people'' =
         Inr (JList sample_crew)
     \<and> map (people_entry (canned (Body ''body'') (Parsed (sample_people 3)))) sample_crew =
         map Some [(JStr ''Ann'', JStr ''ISS''), (JStr ''Bo'', JStr ''ISS''),
                   (JStr ''Cy'', JStr ''Tiangong'')]"
    by (simp add: answered_def canned_def message_is_def subscript_def sample_people_def
        sample_crew_def py_int_def people_entry_def)
  have "passing (canned (Body ''body'') (Parsed (sample_passing 2))) (Finite 45) (Finite 10) =
      \<lparr>printed =
         pass_header (canned (Body ''body'') (Parsed (sample_passing 2))) (JInt 45) (JInt 10)
           (int (length sample_passes))
         @ map (pass_line (canned (Body ''body'') (Parsed (sample_passing 2))))
             [(JInt 600, ''2023-07-22 04:26:40''), (JInt 540, ''2023-07-22 05:26:40'')]
         @ [Line Green False dashes],
       requests = [passing_request (Finite 45) (Finite 10)], outcome = Ok ()\<rparr>"
    using pass_hyps
      tables_rendered [where env = "canned (Body ''body'') (Parsed (sample_passing 2))"
        and lat = "Finite 45" and lon = "Finite 10" and obj = "sample_passing 2"
        and rq = "JDict [(''latitude'', JInt 45), (''longitude'', JInt 10), (''passes'', JInt 2)]"
        and la = "JInt 45" and lo = "JInt 10" and entries = sample_passes
        and rows = "[(JInt 600, ''2023-07-22 04:26:40''), (JInt 540, ''2023-07-22 05:26:40'')]"]
    by blast
  moreover
  have "people (canned (Body ''body'') (Parsed (sample_people 3))) =
      \<lparr>printed =
         people_header
         @ map (people_line (canned (Body ''body'') (Parsed (sample_people 3))))
             [(JStr ''Ann'', JStr ''ISS''), (JStr ''Bo'', JStr ''ISS''),
              (JStr ''Cy'', JStr ''Tiangong'')]
         @ [Line Green False dashes],
       requests = [people_request], outcome = Ok ()\<rparr>"
    using people_hyps
      tables_rendered [where env = "canned (Body ''body'') (Parsed (sample_people 3))"
        and obj' = "sample_people 3" and crew = sample_crew
        and rows' = "[(JStr ''Ann'', JStr ''ISS''), (JStr ''Bo'', JStr ''ISS''),
                      (JStr ''Cy'', JStr ''Tiangong'')]"]
    by blast
  ultimately show ?thesis
    apply (simp add: pass_header_def pass_line_def people_header_def people_line_def
        py_str_def sample_passes_def dashes_def rule_line_def rjust_def str_int_def)
    apply code_simp
    done
qed

section \<open>An array shorter than its count\<close>

text \<open>
  Claim C9: when \<^verbatim>\<open>request.passes\<close> is larger than the number of entries of the
  \<^verbatim>\<open>response\<close> array (or \<^verbatim>\<open>number\<close> larger than the number of entries of
  \<^verbatim>\<open>people\<close>), the loop prints the rows of the entries there are and then reads past
  the end of the array; the \<^verbatim>\<open>IndexError\<close> is none of the classes of the \<^verbatim>\<open>except\<close>
  clause, so neither the report of \<^verbatim>\<open>common_error\<close> nor the closing line is printed
  and the exception leaves the operation.
\<close>

theorem short_array_index_error:
  "(coords_accepted lat lon
    \<and> answered env (passing_request lat lon) obj
    \<and> message_is env obj ''success''
    \<and> subscript env obj ''request'' = Inr rq
    \<and> subscript env rq ''latitude'' = Inr la
    \<and> subscript env rq ''longitude'' = Inr lo
    \<and> bnd (subscript env rq ''passes'') (py_int env) = Inr n
    \<and> subscript env obj ''response'' = Inr (JList entries)
    \<and> map (pass_entry env) entries = map Some rows
    \<and> int (length entries) < n
    \<longrightarrow> passing env lat lon =
          \<lparr>printed = pass_header env la lo n @ map (pass_line env) rows,
           requests = [passing_request lat lon],
           outcome =
             Raise (Exn IndexError
                      (fault_msg env (IndexRange (JList entries) (length entries))))\<rparr>)
   \<and> (answered env people_request obj'
       \<and> message_is env obj' ''success''
       \<and> bnd (subscript env obj' ''number'') (py_int env) = Inr m
       \<and> subscript env obj' ''people'' = Inr (JList crew)
       \<and> map (people_entry env) crew = map Some rows'
       \<and> int (length crew) < m
       \<longrightarrow> people env =
             \<lparr>printed = people_header @ map (people_line env) rows',
              requests = [people_request],
              outcome =
                Raise (Exn IndexError
                         (fault_msg env (IndexRange (JList crew) (length crew))))\<rparr>)
   \<and> \<not> caught IndexError"
proof (intro conjI impI)
  assume h: "coords_accepted lat lon
    \<and> answered env (passing_request lat lon) obj
    \<and> message_is env obj ''success''
    \<and> subscript env obj ''request'' = Inr rq
    \<and> subscript env rq ''latitude'' = Inr la
    \<and> subscript env rq ''longitude'' = Inr lo
    \<and> bnd (subscript env rq ''passes'') (py_int env) = Inr n
    \<and> subscript env obj ''response'' = Inr (JList entries)
    \<and> map (pass_entry env) entries = map Some rows
    \<and> int (length entries) < n"
  then have loop: "run_all (map (pass_row env obj) (py_range n)) =
      (map (pass_line env) rows,
       Raise (Exn IndexError (fault_msg env (IndexRange (JList entries) (length entries)))))"
    by (intro pass_rows_cut_short) simp_all
  have "passing_body env obj (UrlRequest (passing_request lat lon)) =
      cbind (pass_header env la lo n @ map (pass_line env) rows,
             Raise (Exn IndexError (fault_msg env (IndexRange (JList entries) (length entries)))))
        (\<lambda>u::unit. ([Line Green False dashes], Ok ()))"
    using h loop by (intro passing_body_success [where rq = rq]) simp_all
  then show "passing env lat lon =
      \<lparr>printed = pass_header env la lo n @ map (pass_line env) rows,
       requests = [passing_request lat lon],
       outcome =
         Raise (Exn IndexError (fault_msg env (IndexRange (JList entries) (length entries))))\<rparr>"
    using h open_and_load_answered [of env "passing_request lat lon" obj "passing_body env"]
    by (simp add: passing_accepted finish_def try_common_escapes caught_def)
next
  assume h: "answered env people_request obj'
    \<and> message_is env obj' ''success''
    \<and> bnd (subscript env obj' ''number'') (py_int env) = Inr m
    \<and> subscript env obj' ''people'' = Inr (JList crew)
    \<and> map (people_entry env) crew = map Some rows'
    \<and> int (length crew) < m"
  then have loop: "run_all (map (people_row env obj') (py_range m)) =
      (map (people_line env) rows',
       Raise (Exn IndexError (fault_msg env (IndexRange (JList crew) (length crew)))))"
    by (intro people_rows_cut_short) simp_all
  have "people_body env obj' (UrlRequest people_request) =
      cbind (people_header @ map (people_line env) rows',
             Raise (Exn IndexError (fault_msg env (IndexRange (JList crew) (length crew)))))
        (\<lambda>u::unit. ([Line Green False dashes], Ok ()))"
    using h loop by (intro people_body_success) simp_all
  then show "people env =
      \<lparr>printed = people_header @ map (people_line env) rows',
       requests = [people_request],
       outcome =
         Raise (Exn IndexError (fault_msg env (IndexRange (JList crew) (length crew))))\<rparr>"
    using h open_and_load_answered [of env people_request obj' "people_body env"]
    by (simp add: people_def finish_def try_common_escapes caught_def)
next
  show "\<not> caught IndexError"
    by (simp add: caught_def)
qed

theorem short_array_index_error_witness:
  "passing (canned (Body ''body'') (Parsed (sample_passing 3))) (Finite 45) (Finite 10) =
     \<lparr>printed =
        [Line BrightWhite True (nl @ ''The ISS will be overhead''),
         Line Green False (nl @ ''Latitude:  45''),
         Line Green False ''Longitude: 10'',
         Line Green False (''Passes: 3'' @ nl),
         Line Green False ''----------------------------------------------'',
         Line Green False ''| Duration             | Risetime            |'',
         Line Green False ''-----------------------+----------------------'',
         Line Green False ''|                  600 |  2023-07-22 04:26:40|'',
         Line Green False ''|                  540 |  2023-07-22 05:26:40|''],
      requests = [passing_request (Finite 45) (Finite 10)],
      outcome = Raise (Exn IndexError ''<message>'')\<rparr>
   \<and> people (canned (Body ''body'') (Parsed (sample_people 4))) =
     \<lparr>printed =
        [Line BrightWhite True (nl @ ''The people now on the Space'' @ nl),
         Line Green False ''----------------------------------------------'',
         Line Green False ''| Name                 | Craft               |'',
         Line Green False ''-----------------------+----------------------'',
         Line Green False ''|                  Ann |                  ISS|'',
         Line Green False ''|                   Bo |                  ISS|'',
         Line Green False ''|                   Cy |             Tiangong|''],
      requests = [people_request],
      outcome = Raise (Exn IndexError ''<message>'')\<rparr>"
proof -
  have pass_hyps:
    "coords_accepted (Finite 45) (Finite 10)
     \<and> answered (canned (Body ''body'') (Parsed (sample_passing 3)))
         (passing_request (Finite 45) (Finite 10)) (sample_passing 3)
     \<and> message_is (canned (Body ''body'') (Parsed (sample_passing 3))) (sample_passing 3) ''success''
     \<and> subscript (canned (Body ''body'') (Parsed (sample_passing 3))) (sample_passing 3) ''request'' =
         Inr (JDict [(''latitude'', JInt 45), (''longitude'', JInt 10), (''passes'', JInt 3)])
     \<and> subscript (canned (Body ''body'') (Parsed (sample_passing 3)))
         (JDict [(''latitude'', JInt 45), (''longitude'', JInt 10), (''passes'', JInt 3)])
         ''latitude'' = Inr (JInt 45)
     \<and> subscript (canned (Body ''body'') (Parsed (sample_passing 3)))
         (JDict [(''latitude'', JInt 45), (''longitude'', JInt 10), (''passes'', JInt 3)])
         ''longitude'' = Inr (JInt 10)
     \<and> bnd (subscript (canned (Body ''body'') (Parsed (sample_passing 3)))
            (JDict [(''latitude'', JInt 45), (''longitude'', JInt 10), (''passes'', JInt 3)])
            ''passes'')
         (py_int (canned (Body ''body'') (Parsed (sample_passing 3)))) = Inr 3
     \<and> subscript (canned (Body ''body'') (Parsed (sample_passing 3))) (sample_passing 3) ''response'' =
         Inr (JList sample_passes)
     \<and> map (pass_entry (canned (Body ''body'') (Parsed (sample_passing 3)))) sample_passes =
         map Some [(JInt 600, ''2023-07-22 04:26:40''), (JInt 540, ''2023-07-22 05:26:40'')]
     \<and> int (length sample_passes) < 3"
    by (simp add: coords_accepted_def flt_gt_def answered_def canned_def message_is_def
        subscript_def sample_passing_def sample_passes_def py_int_def pass_entry_def
        sample_clock_def)
  have people_hyps:
    "answered (canned (Body ''body'') (Parsed (sample_people 4))) people_request (sample_people 4)
     \<and> message_is (canned (Body ''body'') (Parsed (sample_people 4))) (sample_people 4) ''success''
     \<and> bnd (subscript (canned (Body ''body'') (Parsed (sample_people 4))) (sample_people 4) ''number'')
         (py_int (canned (Body ''body'') (Parsed (sample_people 4)))) = Inr 4
     \<and> subscript (canned (Body ''body'') (Parsed (sample_people 4))) (sample_people 4) ''people'' =
         Inr (JList sample_crew)
     \<and> map (people_entry (canned (Body ''body'') (Parsed (sample_people 4)))) sample_crew =
         map Some [(JStr ''Ann'', JStr ''ISS''), (JStr ''Bo'', JStr ''ISS''),
                   (JStr ''Cy'', JStr ''Tiangong'')]
     \<and> int (length sample_crew) < 4"
    by (simp add: answered_def canned_def message_is_def subscript_def sample_people_def
        sample_crew_def py_int_def people_entry_def)
  have "passing (canned (Body ''body'') (Parsed (sample_passing 3))) (Finite 45) (Finite 10) =
      \<lparr>printed =
         pass_header (canned (Body ''body'') (Parsed (sample_passing 3))) (JInt 45) (JInt 10) 3
         @ map (pass_line (canned (Body ''body'') (Parsed (sample_passing 3))))
             [(JInt 600, ''2023-07-22 04:26:40''), (JInt 540, ''2023-07-22 05:26:40'')],
       requests = [passing_request (Finite 45) (Finite 10)],
       outcome =
         Raise (Exn IndexError
                  (fault_msg (canned (Body ''body'') (Parsed (sample_passing 3)))
                     (IndexRange (JList sample_passes) (length sample_passes))))\<rparr>"
    using pass_hyps
      short_array_index_error
        [where env = "canned (Body ''body'') (Parsed (sample_passing 3))"
          and lat = "Finite 45" and lon = "Finite 10" and obj = "sample_passing 3"
          and rq = "JDict [(''latitude'', JInt 45), (''longitude'', JInt 10), (''passes'', JInt 3)]"
          and la = "JInt 45" and lo = "JInt 10" and n = 3 and entries = sample_passes
          and rows = "[(JInt 600, ''2023-07-22 04:26:40''), (JInt 540, ''2023-07-22 05:26:40'')]"]
    by blast
  moreover
  have "people (canned (Body ''body'') (Parsed (sample_people 4))) =
      \<lparr>printed =
         people_header
         @ map (people_line (canned (Body ''body'') (Parsed (sample_people 4))))
             [(JStr ''Ann'', JStr ''ISS''), (JStr ''Bo'', JStr ''ISS''),
              (JStr ''Cy'', JStr ''Tiangong'')],
       requests = [people_request],
       outcome =
         Raise (Exn IndexError
                  (fault_msg (canned (Body ''body'') (Parsed (sample_people 4)))
                     (IndexRange (JList sample_crew) (length sample_crew))))\<rparr>"
    using people_hyps
      short_array_index_error
        [where env = "canned (Body ''body'') (Parsed (sample_people 4))"
          and obj' = "sample_people 4" and m = 4 and crew = sample_crew
          and rows' = "[(JStr ''Ann'', JStr ''ISS''), (JStr ''Bo'', JStr ''ISS''),
                        (JStr ''Cy'', JStr ''Tiangong'')]"]
    by blast
  ultimately show ?thesis
    apply (simp add: pass_header_def pass_line_def people_header_def people_line_def
        py_str_def dashes_def rule_line_def rjust_def str_int_def canned_def)
    apply code_simp
    done
qed

end
